theory Spec2Isabelle
  imports Complex_Main "HOL-Library.Word"
begin

section \<open>Python values and errors\<close>

text \<open>
  The generator scripts are Python programs over numpy arrays. Python integers are
  modelled as \<^typ>\<open>int\<close>, floating-point numbers are idealised as \<^typ>\<open>real\<close>
  (so rounding, NaN and infinities are outside the model), bytes as \<^typ>\<open>8 word\<close>.
  Every exception the modelled code can raise is a value of \<open>py_error\<close>.
\<close>

datatype py_error = ZeroDivisionError | ValueError

type_synonym byte = "8 word"

text \<open>Sequencing of computations that may raise: the first error aborts the rest.\<close>

definition bindE :: "py_error + 'a \<Rightarrow> ('a \<Rightarrow> py_error + 'b) \<Rightarrow> py_error + 'b" where
  "bindE m f = (case m of Inl e \<Rightarrow> Inl e | Inr x \<Rightarrow> f x)"

text \<open>Python's \<open>int(x)\<close> on a float: truncation towards zero.\<close>

definition py_int :: "real \<Rightarrow> int" where
  "py_int x = (if 0 \<le> x then \<lfloor>x\<rfloor> else \<lceil>x\<rceil>)"

text \<open>Python's true division \<open>a / b\<close> on integers.\<close>

definition true_div :: "int \<Rightarrow> int \<Rightarrow> py_error + real" where
  "true_div a b = (if b = 0 then Inl ZeroDivisionError else Inr (real_of_int a / real_of_int b))"

text \<open>\<open>np.clip(x, lo, hi)\<close> on one element: \<open>minimum(maximum(x, lo), hi)\<close>.\<close>

definition np_clip :: "real \<Rightarrow> real \<Rightarrow> real \<Rightarrow> real" where
  "np_clip x lo hi = min (max x lo) hi"

section \<open>Cardiac cycle phase\<close>

text \<open>
  \<open>generate_realistic_frame\<close> and \<open>generate_4chamber_frame\<close> begin with
  \<^verbatim>\<open>cycle = frame / total_frames; phase = 2 * np.pi * cycle;
  systole_factor = (np.sin(phase) + 1) / 2\<close>.
\<close>

definition cycle_of :: "int \<Rightarrow> int \<Rightarrow> py_error + real" where
  "cycle_of frame total_frames = true_div frame total_frames"

definition phase_of :: "real \<Rightarrow> real" where
  "phase_of cycle = 2 * pi * cycle"

definition systole_of_phase :: "real \<Rightarrow> real" where
  "systole_of_phase phase = (sin phase + 1) / 2"

definition frame_systole_factor :: "int \<Rightarrow> int \<Rightarrow> py_error + real" where
  "frame_systole_factor frame total_frames =
     bindE (cycle_of frame total_frames) (\<lambda>cycle. Inr (systole_of_phase (phase_of cycle)))"


section \<open>The cycle phase in floating point\<close>

text \<open>
  The same three statements with the rounding of every floating-point operation written
  out. A float is the real number it denotes: \<open>fl\<close> rounds the exact result of an
  operation to a float, \<open>fl_sin\<close> is \<open>np.sin\<close> and \<open>fl_pi\<close> is \<open>np.pi\<close>. The division
  \<open>frame / total_frames\<close> of two integers raises \<open>ZeroDivisionError\<close> or rounds the
  quotient; \<open>2 * np.pi * cycle\<close> is \<open>(2 * np.pi) * cycle\<close>.
\<close>

record float_ops =
  fl :: "real \<Rightarrow> real"
  fl_sin :: "real \<Rightarrow> real"
  fl_pi :: real

definition frame_systole_factor_fl :: "float_ops \<Rightarrow> int \<Rightarrow> int \<Rightarrow> py_error + real" where
  "frame_systole_factor_fl ops frame total_frames =
     bindE (true_div frame total_frames) (\<lambda>quotient.
     let cycle = fl ops quotient;
         phase = fl ops (fl ops (2 * fl_pi ops) * cycle);
         systole_factor = fl ops (fl ops (fl_sin ops phase + 1) / 2)
     in Inr systole_factor)"

text \<open>
  What the range of the systole factor needs of the arithmetic: rounding is monotone and
  leaves 0, 1 and 2 unchanged (they are floats), and the sine lies in \<open>[-1,1]\<close>. IEEE
  rounding to nearest has these properties.
\<close>

definition rounding_monotone :: "float_ops \<Rightarrow> bool" where
  "rounding_monotone ops \<longleftrightarrow>
     (\<forall>x y. x \<le> y \<longrightarrow> fl ops x \<le> fl ops y)
     \<and> fl ops 0 = 0 \<and> fl ops 1 = 1 \<and> fl ops 2 = 2
     \<and> (\<forall>x. - 1 \<le> fl_sin ops x \<and> fl_sin ops x \<le> 1)"

text \<open>
  Two instances: exact arithmetic, in which \<open>frame_systole_factor_fl\<close> is
  \<open>frame_systole_factor\<close>, and rounding to the nearest multiple of \<open>1/1024\<close> (halves
  upwards) for closed examples.
\<close>

definition exact_ops :: float_ops where
  "exact_ops = \<lparr> fl = (\<lambda>x. x), fl_sin = sin, fl_pi = pi \<rparr>"

definition grid_round :: "real \<Rightarrow> real" where
  "grid_round x = real_of_int \<lfloor>x * 1024 + 1 / 2\<rfloor> / 1024"

definition grid_ops :: float_ops where
  "grid_ops = \<lparr> fl = grid_round, fl_sin = (\<lambda>x. grid_round (sin x)), fl_pi = 3217 / 1024 \<rparr>"

section \<open>Cardiac anatomy (apical four-chamber view)\<close>

text \<open>
  Class \<open>CardiacAnatomy\<close> of \<open>generate_echo_dicom_realistic.py\<close>. The constructor
  stores the image size and derives the landmarks; \<open>//\<close> is floor division.
\<close>

record CardiacAnatomy =
  a_width :: int
  a_height :: int
  a_cx :: int
  a_apex_y :: int
  a_base_y :: int
  a_mid_y :: int

definition CardiacAnatomy_init :: "int \<Rightarrow> int \<Rightarrow> CardiacAnatomy" where
  "CardiacAnatomy_init width height =
     \<lparr> a_width = width, a_height = height, a_cx = width div 2,
       a_apex_y = py_int (real_of_int height * 0.08),
       a_base_y = py_int (real_of_int height * 0.82),
       a_mid_y = py_int (real_of_int height * 0.48) \<rparr>"

text \<open>The dictionaries returned by the contour and valve methods.\<close>

record ventricle_contour =
  vc_center :: "int \<times> int"
  vc_outer :: "int \<times> int"
  vc_inner :: "int \<times> int"
  vc_apex_y :: int
  vc_wall_thickness :: int

record atrium_contour =
  ac_center :: "int \<times> int"
  ac_radius :: "int \<times> int"
  ac_wall_thickness :: int

record valve_state =
  v_position :: "int \<times> int"
  v_opening :: int
  v_leaflet_length :: int

definition get_lv_contour :: "CardiacAnatomy \<Rightarrow> real \<Rightarrow> ventricle_contour" where
  "get_lv_contour self systole_factor =
     (let contraction = 0.22 * systole_factor;
          outer_rx = py_int (real_of_int (a_width self) * 0.14 * (1 - contraction * 0.15));
          outer_ry = py_int (real_of_int (a_height self) * 0.32 * (1 - contraction * 0.1));
          inner_rx = py_int (real_of_int (a_width self) * 0.10 * (1 - contraction * 0.4));
          inner_ry = py_int (real_of_int (a_height self) * 0.26 * (1 - contraction * 0.35));
          cx = a_cx self - py_int (real_of_int (a_width self) * 0.08);
          cy = py_int (real_of_int (a_height self) * 0.30)
      in \<lparr> vc_center = (cx, cy), vc_outer = (outer_rx, outer_ry),
           vc_inner = (inner_rx, inner_ry), vc_apex_y = a_apex_y self + 15,
           vc_wall_thickness = outer_rx - inner_rx \<rparr>)"

definition get_rv_contour :: "CardiacAnatomy \<Rightarrow> real \<Rightarrow> ventricle_contour" where
  "get_rv_contour self systole_factor =
     (let contraction = 0.15 * systole_factor;
          outer_rx = py_int (real_of_int (a_width self) * 0.11 * (1 - contraction * 0.15));
          outer_ry = py_int (real_of_int (a_height self) * 0.28 * (1 - contraction * 0.1));
          inner_rx = py_int (real_of_int (a_width self) * 0.08 * (1 - contraction * 0.35));
          inner_ry = py_int (real_of_int (a_height self) * 0.23 * (1 - contraction * 0.3));
          cx = a_cx self + py_int (real_of_int (a_width self) * 0.12);
          cy = py_int (real_of_int (a_height self) * 0.28)
      in \<lparr> vc_center = (cx, cy), vc_outer = (outer_rx, outer_ry),
           vc_inner = (inner_rx, inner_ry), vc_apex_y = a_apex_y self + 25,
           vc_wall_thickness = outer_rx - inner_rx \<rparr>)"

definition get_la_contour :: "CardiacAnatomy \<Rightarrow> real \<Rightarrow> atrium_contour" where
  "get_la_contour self systole_factor =
     (let expansion = 0.12 * systole_factor;
          rx = py_int (real_of_int (a_width self) * 0.12 * (1 + expansion));
          ry = py_int (real_of_int (a_height self) * 0.12 * (1 + expansion));
          cx = a_cx self - py_int (real_of_int (a_width self) * 0.10);
          cy = py_int (real_of_int (a_height self) * 0.65)
      in \<lparr> ac_center = (cx, cy), ac_radius = (rx, ry),
           ac_wall_thickness = py_int (real_of_int (a_width self) * 0.015) \<rparr>)"

definition get_ra_contour :: "CardiacAnatomy \<Rightarrow> real \<Rightarrow> atrium_contour" where
  "get_ra_contour self systole_factor =
     (let expansion = 0.10 * systole_factor;
          rx = py_int (real_of_int (a_width self) * 0.10 * (1 + expansion));
          ry = py_int (real_of_int (a_height self) * 0.11 * (1 + expansion));
          cx = a_cx self + py_int (real_of_int (a_width self) * 0.12);
          cy = py_int (real_of_int (a_height self) * 0.63)
      in \<lparr> ac_center = (cx, cy), ac_radius = (rx, ry),
           ac_wall_thickness = py_int (real_of_int (a_width self) * 0.012) \<rparr>)"

definition get_mitral_valve :: "CardiacAnatomy \<Rightarrow> real \<Rightarrow> valve_state" where
  "get_mitral_valve self systole_factor =
     (let opening = py_int (30 * (1 - systole_factor))
      in \<lparr> v_position = (a_cx self - py_int (real_of_int (a_width self) * 0.08), a_mid_y self),
           v_opening = opening, v_leaflet_length = 35 \<rparr>)"

definition get_tricuspid_valve :: "CardiacAnatomy \<Rightarrow> real \<Rightarrow> valve_state" where
  "get_tricuspid_valve self systole_factor =
     (let opening = py_int (25 * (1 - systole_factor))
      in \<lparr> v_position = (a_cx self + py_int (real_of_int (a_width self) * 0.10), a_mid_y self - 5),
           v_opening = opening, v_leaflet_length = 30 \<rparr>)"

text \<open>
  The same quantities in \<open>generate_4chamber_frame\<close> of \<open>generate_echo_dicom_v2.py\<close>
  (and its copy in \<open>generate_echo_dicom_jpeg.py\<close>) are local variables with absolute
  pixel sizes; the record collects the radii and valve openings the function computes
  from \<open>systole_factor\<close> before drawing.
\<close>

record chamber_sizes_v2 =
  lv_outer :: "int \<times> int"
  lv_inner :: "int \<times> int"
  rv_outer :: "int \<times> int"
  rv_inner :: "int \<times> int"
  la_radius :: "int \<times> int"
  ra_radius :: "int \<times> int"
  mv_opening :: int
  tv_opening :: int

definition chamber_sizes_4chamber :: "real \<Rightarrow> chamber_sizes_v2" where
  "chamber_sizes_4chamber systole_factor =
     (let lv_contraction = 0.18 * systole_factor;
          lv_outer_rx = py_int (75 * (1 - lv_contraction * 0.3));
          lv_outer_ry = py_int (140 * (1 - lv_contraction * 0.2));
          lv_inner_rx = py_int (55 * (1 - lv_contraction));
          lv_inner_ry = py_int (115 * (1 - lv_contraction * 0.8));
          rv_contraction = 0.12 * systole_factor;
          rv_outer_rx = py_int (65 * (1 - rv_contraction * 0.3));
          rv_outer_ry = py_int (120 * (1 - rv_contraction * 0.2));
          rv_inner_rx = py_int (50 * (1 - rv_contraction));
          rv_inner_ry = py_int (100 * (1 - rv_contraction * 0.7));
          la_expansion = 0.08 * systole_factor;
          la_rx = py_int (70 * (1 + la_expansion));
          la_ry = py_int (55 * (1 + la_expansion));
          ra_expansion = 0.06 * systole_factor;
          ra_rx = py_int (60 * (1 + ra_expansion));
          ra_ry = py_int (50 * (1 + ra_expansion))
      in \<lparr> lv_outer = (lv_outer_rx, lv_outer_ry), lv_inner = (lv_inner_rx, lv_inner_ry),
           rv_outer = (rv_outer_rx, rv_outer_ry), rv_inner = (rv_inner_rx, rv_inner_ry),
           la_radius = (la_rx, la_ry), ra_radius = (ra_rx, ra_ry),
           mv_opening = py_int (25 * (1 - systole_factor)),
           tv_opening = py_int (20 * (1 - systole_factor)) \<rparr>)"

text \<open>Componentwise comparison of an \<open>(rx, ry)\<close> pair of radii.\<close>

definition radii_le :: "int \<times> int \<Rightarrow> int \<times> int \<Rightarrow> bool" where
  "radii_le p q = (fst p \<le> fst q \<and> snd p \<le> snd q)"

section \<open>numpy arrays\<close>

text \<open>
  A two-dimensional numpy array is its shape together with its elements by index; only
  the elements at indices inside the shape are part of the array. An array of shape
  \<open>(h, w, 3)\<close> is an array of shape \<open>(h, w)\<close> whose elements are functions from the
  channel index to the channel value.
\<close>

record 'a ndarray =
  nrows :: nat
  ncols :: nat
  px :: "nat \<Rightarrow> nat \<Rightarrow> 'a"

text \<open>An operation applied to every element (arithmetic with a scalar, \<open>np.sin\<close>, \<open>np.clip\<close>, \<open>astype\<close>).\<close>

definition arr_map :: "('a \<Rightarrow> 'b) \<Rightarrow> 'a ndarray \<Rightarrow> 'b ndarray" where
  "arr_map f a = \<lparr> nrows = nrows a, ncols = ncols a, px = (\<lambda>i j. f (px a i j)) \<rparr>"

text \<open>
  numpy broadcasting of one dimension: equal extents, or one of them is 1 and is
  stretched; anything else raises \<open>ValueError\<close>.
\<close>

definition broadcast_dim :: "nat \<Rightarrow> nat \<Rightarrow> nat option" where
  "broadcast_dim m n =
     (if m = n then Some m else if m = 1 then Some n else if n = 1 then Some m else None)"

definition bpx :: "'a ndarray \<Rightarrow> nat \<Rightarrow> nat \<Rightarrow> 'a" where
  "bpx a i j = px a (if nrows a = 1 then 0 else i) (if ncols a = 1 then 0 else j)"

text \<open>A binary elementwise operation \<open>a op b\<close> on two arrays, with broadcasting.\<close>

definition arr_zip :: "('a \<Rightarrow> 'b \<Rightarrow> 'c) \<Rightarrow> 'a ndarray \<Rightarrow> 'b ndarray \<Rightarrow> py_error + 'c ndarray" where
  "arr_zip f a b =
     (case (broadcast_dim (nrows a) (nrows b), broadcast_dim (ncols a) (ncols b)) of
        (Some r, Some c) \<Rightarrow>
          Inr \<lparr> nrows = r, ncols = c, px = (\<lambda>i j. f (bpx a i j) (bpx b i j)) \<rparr>
      | _ \<Rightarrow> Inl ValueError)"

section \<open>Time gain compensation\<close>

text \<open>
  \<open>apply_tgc\<close> of \<open>generate_echo_dicom_realistic.py\<close>:
  \<^verbatim>\<open>tgc_curve = 0.7 + 0.6 * distance_map + 0.1 * np.sin(distance_map * np.pi)\<close>,
  \<^verbatim>\<open>return image * tgc_curve\<close>. The gain of one element is \<open>tgc_gain\<close>.
\<close>

definition tgc_gain :: "real \<Rightarrow> real" where
  "tgc_gain distance = 0.7 + 0.6 * distance + 0.1 * sin (distance * pi)"

definition apply_tgc :: "real ndarray \<Rightarrow> real ndarray \<Rightarrow> py_error + real ndarray" where
  "apply_tgc image' distance_map =
     (let tgc_curve = arr_map tgc_gain distance_map in arr_zip (*) image' tgc_curve)"

text \<open>
  \<open>apply_ultrasound_artifacts\<close> of \<open>generate_echo_dicom_v2.py\<close> (and of the JPEG
  script): \<^verbatim>\<open>y_coords = np.arange(height).reshape(-1, 1) / height\<close>,
  \<^verbatim>\<open>tgc = 0.7 + 0.5 * y_coords\<close>, then the image is multiplied by the gain and by the
  sector mask and clipped after a contrast factor of 1.2.
\<close>

definition tgc_gain_v2 :: "real \<Rightarrow> real" where
  "tgc_gain_v2 y = 0.7 + 0.5 * y"

definition y_coords :: "nat \<Rightarrow> real ndarray" where
  "y_coords height = \<lparr> nrows = height, ncols = 1, px = (\<lambda>i j. real i / real height) \<rparr>"

definition apply_ultrasound_artifacts ::
  "real ndarray \<Rightarrow> real ndarray \<Rightarrow> py_error + real ndarray" where
  "apply_ultrasound_artifacts image' mask' =
     (let height = nrows image';
          tgc = arr_map tgc_gain_v2 (y_coords height)
      in bindE (arr_zip (*) image' tgc) (\<lambda>image1.
         bindE (arr_zip (*) image1 mask') (\<lambda>image2.
         Inr (arr_map (\<lambda>v. np_clip (v * 1.2) 0 1) image2))))"

section \<open>Command-line entry points\<close>

text \<open>
  \<open>main\<close> of \<open>generate_echo_dicom_jpeg.py\<close> and of \<open>generate_echo_dicom_realistic.py\<close>
  read the output folder, the frame count and the JPEG quality from \<open>sys.argv\<close>, clamp
  the quality, and start the generation with fixed image dimensions. The record holds
  the arguments of the call that starts the generation. Python's \<open>int(s)\<close> on a
  string is the parameter \<open>int_of\<close>: \<open>None\<close> where \<open>int\<close> raises \<open>ValueError\<close>.
\<close>

record generation_args =
  g_output_dir :: string
  g_num_frames :: int
  g_quality :: int
  g_width :: int
  g_height :: int
  g_frame_rate :: int

definition py_int_arg :: "(string \<Rightarrow> int option) \<Rightarrow> string \<Rightarrow> py_error + int" where
  "py_int_arg int_of s = (case int_of s of None \<Rightarrow> Inl ValueError | Some n \<Rightarrow> Inr n)"

definition main_jpeg :: "(string \<Rightarrow> int option) \<Rightarrow> string list \<Rightarrow> py_error + generation_args" where
  "main_jpeg int_of argv =
     (let output_dir = (if length argv > 1 then argv ! 1 else ''./output'') in
      bindE (if length argv > 2 then py_int_arg int_of (argv ! 2) else Inr 60) (\<lambda>num_frames.
      bindE (if length argv > 3 then py_int_arg int_of (argv ! 3) else Inr 85) (\<lambda>quality.
      let quality = max 1 (min 100 quality) in
      Inr \<lparr> g_output_dir = output_dir, g_num_frames = num_frames, g_quality = quality,
            g_width = 640, g_height = 480, g_frame_rate = 30 \<rparr>)))"

definition main_realistic :: "(string \<Rightarrow> int option) \<Rightarrow> string list \<Rightarrow> py_error + generation_args" where
  "main_realistic int_of argv =
     (let output_dir = (if length argv > 1 then argv ! 1 else ''./output'') in
      bindE (if length argv > 2 then py_int_arg int_of (argv ! 2) else Inr 90) (\<lambda>num_frames.
      bindE (if length argv > 3 then py_int_arg int_of (argv ! 3) else Inr 90) (\<lambda>quality.
      let quality = max 1 (min 100 quality) in
      Inr \<lparr> g_output_dir = output_dir, g_num_frames = num_frames, g_quality = quality,
            g_width = 640, g_height = 480, g_frame_rate = 30 \<rparr>)))"

text \<open>
  The sector angles are constants of the frame functions: \<open>generate_echo_frame\<close> calls
  \<open>create_sector_mask(width, height, angle_deg=75)\<close> and \<open>generate_realistic_frame\<close>
  calls \<open>create_sector_geometry(width, height, angle_deg=72)\<close>.
\<close>

definition echo_frame_angle_deg :: real where
  "echo_frame_angle_deg = 75"

definition realistic_frame_angle_deg :: real where
  "realistic_frame_angle_deg = 72"

section \<open>Uncompressed multi-frame pixel data\<close>

text \<open>
  \<open>generate_echo_dicom_files\<close> and \<open>generate_echo_dicom_v2\<close> collect the 8-bit frames,
  stack them with \<open>np.stack(frames, axis=0)\<close> into an array of shape
  \<open>(frames, rows, cols)\<close> and pass it to \<open>create_dicom_dataset\<close>, which stores
  \<open>pixel_data.tobytes()\<close> as the pixel data. \<open>np.stack\<close> raises \<open>ValueError\<close> on an
  empty list and on arrays of different shapes; \<open>tobytes\<close> lists the elements in C order
  (last index fastest).
\<close>

record 'a ndarray3 =
  nframes :: nat
  frame_rows :: nat
  frame_cols :: nat
  vox :: "nat \<Rightarrow> nat \<Rightarrow> nat \<Rightarrow> 'a"

definition np_stack :: "'a ndarray list \<Rightarrow> py_error + 'a ndarray3" where
  "np_stack arrays =
     (if arrays = [] then Inl ValueError
      else if list_all (\<lambda>a. nrows a = nrows (hd arrays) \<and> ncols a = ncols (hd arrays)) arrays
      then Inr \<lparr> nframes = length arrays, frame_rows = nrows (hd arrays),
                 frame_cols = ncols (hd arrays), vox = (\<lambda>k. px (arrays ! k)) \<rparr>
      else Inl ValueError)"

definition tobytes2 :: "byte ndarray \<Rightarrow> byte list" where
  "tobytes2 a = concat (map (\<lambda>i. map (\<lambda>j. px a i j) [0..<ncols a]) [0..<nrows a])"

definition tobytes :: "byte ndarray3 \<Rightarrow> byte list" where
  "tobytes a =
     concat (map (\<lambda>k. concat (map (\<lambda>i. map (\<lambda>j. vox a k i j) [0..<frame_cols a])
                                       [0..<frame_rows a]))
                 [0..<nframes a])"

text \<open>
  The attributes of the Image Pixel module that \<open>create_dicom_dataset\<close> sets; the
  descriptive attributes (patient, study, equipment) are constants that no property
  below depends on.
\<close>

record image_pixel_module =
  SamplesPerPixel :: nat
  PhotometricInterpretation :: string
  NumberOfFrames :: nat
  Rows :: nat
  Columns :: nat
  BitsAllocated :: nat
  BitsStored :: nat
  HighBit :: nat
  PixelRepresentation :: nat
  PlanarConfiguration :: nat
  PixelData :: "byte list"

definition create_dicom_dataset :: "byte ndarray3 \<Rightarrow> image_pixel_module" where
  "create_dicom_dataset pixel_data =
     (let num_frames = nframes pixel_data; rows = frame_rows pixel_data;
          cols = frame_cols pixel_data
      in \<lparr> SamplesPerPixel = 1, PhotometricInterpretation = ''MONOCHROME2'',
           NumberOfFrames = num_frames, Rows = rows, Columns = cols,
           BitsAllocated = 8, BitsStored = 8, HighBit = 7, PixelRepresentation = 0,
           PlanarConfiguration = 0, PixelData = tobytes pixel_data \<rparr>)"

definition multiframe_dataset :: "byte ndarray list \<Rightarrow> py_error + image_pixel_module" where
  "multiframe_dataset frames =
     bindE (np_stack frames) (\<lambda>pixel_data. Inr (create_dicom_dataset pixel_data))"

definition create_dicom_dataset_v2 :: "byte ndarray3 \<Rightarrow> image_pixel_module" where
  "create_dicom_dataset_v2 pixel_data =
     (let num_frames = nframes pixel_data; rows = frame_rows pixel_data;
          cols = frame_cols pixel_data
      in \<lparr> SamplesPerPixel = 1, PhotometricInterpretation = ''MONOCHROME2'',
           NumberOfFrames = num_frames, Rows = rows, Columns = cols,
           BitsAllocated = 8, BitsStored = 8, HighBit = 7, PixelRepresentation = 0,
           PlanarConfiguration = 0, PixelData = tobytes pixel_data \<rparr>)"

definition multiframe_dataset_v2 :: "byte ndarray list \<Rightarrow> py_error + image_pixel_module" where
  "multiframe_dataset_v2 frames =
     bindE (np_stack frames) (\<lambda>pixel_data. Inr (create_dicom_dataset_v2 pixel_data))"

section \<open>Encapsulated pixel data\<close>

text \<open>
  Modelled from the spec: the fixed tag that opens the Basic Offset Table item and every fragment
  item (section 4.6, "fixed tag"); the bytes are the item tag (FFFE,E000) of the container
  format in little-endian order. \<open>encapsulate\<close> is imported from the pydicom library
  and is not part of the sources.
\<close>

definition item_tag :: "byte list" where
  "item_tag = [0xFE, 0xFF, 0x00, 0xE0]"

text \<open>
  Modelled from the spec: the tag of the sequence-delimiter item that ends the stream (section
  4.6), (FFFE,E0DD) in little-endian order; not part of the sources.
\<close>

definition seq_delim_tag :: "byte list" where
  "seq_delim_tag = [0xFE, 0xFF, 0xDD, 0xE0]"

text \<open>
  Modelled from the spec: the "4-byte little-endian" encoding of lengths and offsets (section
  4.6); the encoder that writes it is not part of the sources. Each byte keeps the low
  eight bits of its quotient.
\<close>

definition le32 :: "nat \<Rightarrow> byte list" where
  "le32 n = [word_of_nat n, word_of_nat (n div 256), word_of_nat (n div 65536),
             word_of_nat (n div 16777216)]"

text \<open>
  Modelled from the spec: reading a little-endian length field, for the reference decapsulation
  of section 8; no decoder is part of the sources.
\<close>

definition le32_decode :: "byte list \<Rightarrow> nat" where
  "le32_decode bs = foldr (\<lambda>b acc. unat b + 256 * acc) bs 0"

text \<open>
  Modelled from the spec: "if its byte length is odd, append one padding byte (value 0x00) to
  make it even" (section 4.6); the padding code is not part of the sources.
\<close>

definition pad_even :: "byte list \<Rightarrow> byte list" where
  "pad_even fragment = (if odd (length fragment) then fragment @ [0] else fragment)"

text \<open>
  Modelled from the spec: "emit a fragment item header (fixed tag + 4-byte little-endian length)
  followed by the (possibly padded) payload" (section 4.6); not part of the sources.
\<close>

definition fragment_item :: "byte list \<Rightarrow> byte list" where
  "fragment_item fragment =
     item_tag @ le32 (length (pad_even fragment)) @ pad_even fragment"

text \<open>
  Modelled from the spec: the Basic Offset Table gives "the byte offset of each fragment's start
  relative to the first fragment" (section 3), the first being 0; not part of the sources.
\<close>

fun fragment_offsets :: "nat \<Rightarrow> byte list list \<Rightarrow> nat list" where
  "fragment_offsets start [] = []"
| "fragment_offsets start (f # fs) =
     start # fragment_offsets (start + length (fragment_item f)) fs"

text \<open>
  Modelled from the spec: "a Basic Offset Table item whose payload is a 4-byte little-endian
  offset for every fragment" (section 4.6); not part of the sources.
\<close>

definition basic_offset_table :: "byte list list \<Rightarrow> byte list" where
  "basic_offset_table frames =
     item_tag @ le32 (4 * length frames) @ concat (map le32 (fragment_offsets 0 frames))"

text \<open>
  Modelled from the spec: "a sequence-delimiter item with zero length" (section 4.6); not part of
  the sources.
\<close>

definition sequence_delimiter :: "byte list" where
  "sequence_delimiter = seq_delim_tag @ le32 0"

text \<open>
  Modelled from the spec: \<open>EncapsulatedPixelEncoder.encapsulate\<close> (section 4.6): the Basic
  Offset Table item, one fragment item per frame in input order, then the sequence
  delimiter. The scripts call \<open>pydicom.encaps.encapsulate(jpeg_frames)\<close>, whose code is
  not part of the sources.
\<close>

definition encapsulate :: "byte list list \<Rightarrow> byte list" where
  "encapsulate frames =
     basic_offset_table frames @ concat (map fragment_item frames) @ sequence_delimiter"

text \<open>
  Modelled from the spec: the reference decapsulation of section 8, reading fragment items "by
  the documented layout" until the zero-length sequence delimiter, which must be the last
  item; \<open>None\<close> on a malformed stream. No decoder is part of the sources.
\<close>

function read_fragments :: "byte list \<Rightarrow> byte list list option" where
  "read_fragments bs =
     (if length bs < 8 then None
      else let tag = take 4 bs; n = le32_decode (take 4 (drop 4 bs)); rest = drop 8 bs in
        if tag = seq_delim_tag then (if n = 0 \<and> rest = [] then Some [] else None)
        else if tag = item_tag then
          (if length rest < n then None
           else map_option (\<lambda>fs. take n rest # fs) (read_fragments (drop n rest)))
        else None)"
  by pat_completeness auto
termination
  by (relation "measure length") auto

declare read_fragments.simps [simp del]

text \<open>
  Modelled from the spec: the reference decapsulation of section 8: skip the Basic Offset Table
  item, then read the fragment items. No decoder is part of the sources.
\<close>

definition decapsulate :: "byte list \<Rightarrow> byte list list option" where
  "decapsulate stream =
     (if length stream < 8 \<or> take 4 stream \<noteq> item_tag then None
      else let n = le32_decode (take 4 (drop 4 stream)); rest = drop 8 stream in
        if length rest < n then None else read_fragments (drop n rest))"

text \<open>
  \<open>create_jpeg_dicom_dataset\<close> and \<open>create_realistic_dicom_dataset\<close> store the
  encapsulated frames as pixel data and mark the element as having undefined length:
  \<^verbatim>\<open>ds.NumberOfFrames = len(jpeg_frames)\<close>, \<^verbatim>\<open>ds.PixelData = encapsulate(jpeg_frames)\<close>,
  \<^verbatim>\<open>ds['PixelData'].is_undefined_length = True\<close>.
\<close>

record encapsulated_pixel_module = image_pixel_module +
  is_undefined_length :: bool

definition create_jpeg_dicom_dataset ::
  "byte list list \<Rightarrow> nat \<Rightarrow> nat \<Rightarrow> encapsulated_pixel_module" where
  "create_jpeg_dicom_dataset jpeg_frames rows cols =
     (let num_frames = length jpeg_frames
      in \<lparr> SamplesPerPixel = 1, PhotometricInterpretation = ''MONOCHROME2'',
           NumberOfFrames = num_frames, Rows = rows, Columns = cols,
           BitsAllocated = 8, BitsStored = 8, HighBit = 7, PixelRepresentation = 0,
           PlanarConfiguration = 0, PixelData = encapsulate jpeg_frames,
           is_undefined_length = True \<rparr>)"

definition create_realistic_dicom_dataset ::
  "byte list list \<Rightarrow> nat \<Rightarrow> nat \<Rightarrow> bool \<Rightarrow> encapsulated_pixel_module" where
  "create_realistic_dicom_dataset jpeg_frames rows cols include_color =
     (let num_frames = length jpeg_frames
      in \<lparr> SamplesPerPixel = (if include_color then 3 else 1),
           PhotometricInterpretation =
             (if include_color then ''YBR_FULL_422'' else ''MONOCHROME2''),
           NumberOfFrames = num_frames, Rows = rows, Columns = cols,
           BitsAllocated = 8, BitsStored = 8, HighBit = 7, PixelRepresentation = 0,
           PlanarConfiguration = 0, PixelData = encapsulate jpeg_frames,
           is_undefined_length = True \<rparr>)"

section \<open>More array operations\<close>

text \<open>
  \<open>np.repeat(np.repeat(a, k, axis=0), k, axis=1)\<close> replicates every element into a
  \<open>k \<times> k\<close> block; \<open>a[:height, :width]\<close> keeps the leading rows and columns; \<open>min()\<close>
  and \<open>max()\<close> of an array without elements raise \<open>ValueError\<close>;
  \<open>np.linspace(start, stop, num).reshape(-1, 1)\<close> is a column of \<open>num\<close> evenly spaced
  values.
\<close>

definition np_repeat2 :: "nat \<Rightarrow> 'a ndarray \<Rightarrow> 'a ndarray" where
  "np_repeat2 k a =
     \<lparr> nrows = nrows a * k, ncols = ncols a * k, px = (\<lambda>i j. px a (i div k) (j div k)) \<rparr>"

definition arr_slice :: "'a ndarray \<Rightarrow> nat \<Rightarrow> nat \<Rightarrow> 'a ndarray" where
  "arr_slice a height width =
     \<lparr> nrows = min height (nrows a), ncols = min width (ncols a), px = px a \<rparr>"

definition arr_elems :: "'a ndarray \<Rightarrow> 'a list" where
  "arr_elems a = concat (map (\<lambda>i. map (\<lambda>j. px a i j) [0..<ncols a]) [0..<nrows a])"

definition np_min :: "real ndarray \<Rightarrow> py_error + real" where
  "np_min a = (if nrows a * ncols a = 0 then Inl ValueError else Inr (Min (set (arr_elems a))))"

definition np_max :: "real ndarray \<Rightarrow> py_error + real" where
  "np_max a = (if nrows a * ncols a = 0 then Inl ValueError else Inr (Max (set (arr_elems a))))"

definition linspace_column :: "real \<Rightarrow> real \<Rightarrow> nat \<Rightarrow> real ndarray" where
  "linspace_column start stop num =
     \<lparr> nrows = num, ncols = 1,
       px = (\<lambda>i j. if num = 1 then start else start + real i * ((stop - start) / real (num - 1))) \<rparr>"

section \<open>Library functions\<close>

text \<open>
  The scripts draw random numbers from numpy's global generator, blur with scipy's
  \<open>gaussian_filter\<close> and rasterise shapes with PIL's \<open>ImageDraw\<close>. These library
  functions are parameters of the model, collected in one record. The state of the
  global random generator is a value of type \<open>'g\<close> that every drawing function takes
  and returns: \<open>seed_state s\<close> is the state that \<open>np.random.seed(s)\<close> installs,
  \<open>rayleigh scale h w\<close> and \<open>normal loc scale h w\<close> give the elements of the drawn array
  (of shape \<open>(h, w)\<close> and \<open>(h, w, 3)\<close>) and the next state, \<open>gaussian_filter a sigma\<close> gives
  the elements of the blurred array and \<open>pil_draw cmd img\<close> the pixels of the image after
  one drawing command.
\<close>

datatype draw_cmd =
    Ellipse "int \<times> int \<times> int \<times> int" byte
  | Line "(int \<times> int) list" byte nat
  | Polygon "(int \<times> int) list" byte

record 'g pylib =
  seed_state :: "int \<Rightarrow> 'g"
  rayleigh :: "real \<Rightarrow> nat \<Rightarrow> nat \<Rightarrow> 'g \<Rightarrow> (nat \<Rightarrow> nat \<Rightarrow> real) \<times> 'g"
  normal :: "real \<Rightarrow> real \<Rightarrow> nat \<Rightarrow> nat \<Rightarrow> 'g \<Rightarrow> (nat \<Rightarrow> nat \<Rightarrow> nat \<Rightarrow> real) \<times> 'g"
  gaussian_filter :: "real ndarray \<Rightarrow> real \<times> real \<Rightarrow> nat \<Rightarrow> nat \<Rightarrow> real"
  pil_draw :: "draw_cmd \<Rightarrow> byte ndarray \<Rightarrow> nat \<Rightarrow> nat \<Rightarrow> byte"

text \<open>\<open>np.random.seed\<close> accepts seeds from 0 to \<open>2^32 - 1\<close> and raises \<open>ValueError\<close> otherwise.\<close>

definition np_random_seed :: "'g pylib \<Rightarrow> int \<Rightarrow> py_error + 'g" where
  "np_random_seed lib seed =
     (if 0 \<le> seed \<and> seed < 2 ^ 32 then Inr (seed_state lib seed) else Inl ValueError)"

definition np_random_rayleigh ::
  "'g pylib \<Rightarrow> real \<Rightarrow> nat \<Rightarrow> nat \<Rightarrow> 'g \<Rightarrow> real ndarray \<times> 'g" where
  "np_random_rayleigh lib scale h w g =
     (let (f, g') = rayleigh lib scale h w g in (\<lparr> nrows = h, ncols = w, px = f \<rparr>, g'))"

definition np_gaussian_filter :: "'g pylib \<Rightarrow> real ndarray \<Rightarrow> real \<times> real \<Rightarrow> real ndarray" where
  "np_gaussian_filter lib a sigma =
     \<lparr> nrows = nrows a, ncols = ncols a, px = gaussian_filter lib a sigma \<rparr>"

section \<open>Speckle noise\<close>

text \<open>
  The last statement of \<open>generate_realistic_speckle\<close>:
  \<^verbatim>\<open>speckle = (speckle - speckle.min()) / (speckle.max() - speckle.min() + 1e-8)\<close>.
\<close>

definition minmax_normalize :: "real ndarray \<Rightarrow> py_error + real ndarray" where
  "minmax_normalize speckle =
     bindE (np_min speckle) (\<lambda>lo.
     bindE (np_max speckle) (\<lambda>hi.
     Inr (arr_map (\<lambda>v. (v - lo) / (hi - lo + 1 / 10 ^ 8)) speckle)))"

text \<open>
  \<open>generate_realistic_speckle\<close>: seed the global generator when a seed is given, draw
  three Rayleigh layers at full, half and quarter resolution, blur each, replicate the
  coarser ones back to full size, add them with weights, modulate by depth and
  normalise. The additions raise \<open>ValueError\<close> when the replicated layers do not have
  the shape of the fine layer.
\<close>

definition generate_realistic_speckle ::
  "'g pylib \<Rightarrow> nat \<Rightarrow> nat \<Rightarrow> int option \<Rightarrow> 'g \<Rightarrow> py_error + (real ndarray \<times> 'g)" where
  "generate_realistic_speckle lib width height seed g0 =
     bindE (case seed of None \<Rightarrow> Inr g0 | Some s \<Rightarrow> np_random_seed lib s) (\<lambda>g1.
     let (fine, g2) = np_random_rayleigh lib 0.6 height width g1;
         fine = np_gaussian_filter lib fine (0.8, 0.8);
         h2 = height div 2; w2 = width div 2;
         (medium, g3) = np_random_rayleigh lib 0.5 h2 w2 g2;
         medium = np_gaussian_filter lib medium (1.2, 1.2);
         medium = arr_slice (np_repeat2 2 medium) height width;
         h4 = height div 4; w4 = width div 4;
         (coarse, g4) = np_random_rayleigh lib 0.4 h4 w4 g3;
         coarse = np_gaussian_filter lib coarse (1.5, 1.5);
         coarse = arr_slice (np_repeat2 4 coarse) height width
     in bindE (arr_zip (+) (arr_map (\<lambda>v. v * 0.5) fine) (arr_map (\<lambda>v. v * 0.35) medium)) (\<lambda>s1.
        bindE (arr_zip (+) s1 (arr_map (\<lambda>v. v * 0.15) coarse)) (\<lambda>speckle.
        let depth_factor = linspace_column 0.8 1.2 height in
        bindE (arr_zip (*) speckle depth_factor) (\<lambda>speckle.
        bindE (minmax_normalize speckle) (\<lambda>speckle.
        Inr (speckle, g4))))))"

text \<open>
  \<open>generate_speckle_noise\<close> of \<open>generate_echo_dicom_v2.py\<close> and of the JPEG script:
  four layers at scales 1, 2, 4 and 8 are added in place (\<open>noise += layer * (1.0 / scale)\<close>,
  which raises \<open>ValueError\<close> unless the layer broadcasts to the shape of \<open>noise\<close>), then
  \<^verbatim>\<open>noise = noise / noise.max() * intensity\<close>.
\<close>

definition np_zeros :: "nat \<Rightarrow> nat \<Rightarrow> real ndarray" where
  "np_zeros height width = \<lparr> nrows = height, ncols = width, px = (\<lambda>i j. 0) \<rparr>"

definition arr_iadd :: "real ndarray \<Rightarrow> real ndarray \<Rightarrow> py_error + real ndarray" where
  "arr_iadd a b =
     bindE (arr_zip (+) a b) (\<lambda>r.
       if nrows r = nrows a \<and> ncols r = ncols a then Inr r else Inl ValueError)"

fun speckle_layers ::
  "'g pylib \<Rightarrow> nat \<Rightarrow> nat \<Rightarrow> nat list \<Rightarrow> real ndarray \<Rightarrow> 'g \<Rightarrow> py_error + (real ndarray \<times> 'g)" where
  "speckle_layers lib width height [] noise g = Inr (noise, g)"
| "speckle_layers lib width height (scale # scales) noise g =
     (let h = height div scale; w = width div scale;
          (layer, g') = np_random_rayleigh lib 0.5 h w g;
          layer = arr_slice (np_repeat2 scale layer) height width
      in bindE (arr_iadd noise (arr_map (\<lambda>v. v * (1.0 / real scale)) layer)) (\<lambda>noise.
         speckle_layers lib width height scales noise g'))"

definition generate_speckle_noise ::
  "'g pylib \<Rightarrow> nat \<Rightarrow> nat \<Rightarrow> real \<Rightarrow> 'g \<Rightarrow> py_error + (real ndarray \<times> 'g)" where
  "generate_speckle_noise lib width height intensity g =
     (let noise = np_zeros height width in
      bindE (speckle_layers lib width height [1, 2, 4, 8] noise g) (\<lambda>(noise, g').
      bindE (np_max noise) (\<lambda>m.
      Inr (arr_map (\<lambda>v. v / m * intensity) noise, g'))))"

text \<open>Seeds that \<open>np.random.seed\<close> accepts, and generators whose Rayleigh draws are positive.\<close>

definition seed_in_range :: "int option \<Rightarrow> bool" where
  "seed_in_range seed = (case seed of None \<Rightarrow> True | Some s \<Rightarrow> 0 \<le> s \<and> s < 2 ^ 32)"

definition draws_positive :: "'g pylib \<Rightarrow> bool" where
  "draws_positive lib = (\<forall>scale h w g i j. 0 < fst (rayleigh lib scale h w g) i j)"

text \<open>
  A library instance for closed examples: every Rayleigh draw is 1, every normal draw
  is 0.03, the Gaussian filter returns its input (as it does on a constant field) and
  the drawing commands leave the image unchanged. The generator state is trivial.
\<close>

definition fixture_lib :: "unit pylib" where
  "fixture_lib =
     \<lparr> seed_state = (\<lambda>s. ()),
       rayleigh = (\<lambda>scale h w g. (\<lambda>i j. 1, ())),
       normal = (\<lambda>loc scale h w g. (\<lambda>i j c. 3 / 100, ())),
       gaussian_filter = (\<lambda>a sigma. px a),
       pil_draw = (\<lambda>cmd img. px img) \<rparr>"

section \<open>Colour Doppler flow\<close>

text \<open>
  \<open>generate_color_doppler_flow\<close>. The flow image has shape \<open>(height, width, 3)\<close>; a
  masked assignment \<^verbatim>\<open>flow_rgb[mask, c] = v\<close> sets channel \<open>c\<close> of the pixels selected by
  the mask. The distance to a valve is \<^verbatim>\<open>np.sqrt((x - mv_x) ** 2 + (y - mv_y) ** 2)\<close>.
\<close>

definition np_random_normal ::
  "'g pylib \<Rightarrow> real \<Rightarrow> real \<Rightarrow> nat \<Rightarrow> nat \<Rightarrow> 'g \<Rightarrow> (nat \<Rightarrow> real) ndarray \<times> 'g" where
  "np_random_normal lib loc scale h w g =
     (let (f, g') = normal lib loc scale h w g in (\<lparr> nrows = h, ncols = w, px = f \<rparr>, g'))"

definition assign_channel ::
  "(nat \<Rightarrow> real) ndarray \<Rightarrow> (nat \<Rightarrow> nat \<Rightarrow> bool) \<Rightarrow> nat \<Rightarrow> real \<Rightarrow> (nat \<Rightarrow> real) ndarray" where
  "assign_channel a selected c v =
     \<lparr> nrows = nrows a, ncols = ncols a,
       px = (\<lambda>i j. if selected i j then (px a i j)(c := v) else px a i j) \<rparr>"

definition valve_dist :: "int \<times> int \<Rightarrow> nat \<Rightarrow> nat \<Rightarrow> real" where
  "valve_dist pos y x = sqrt (real_of_int ((int x - fst pos)\<^sup>2 + (int y - snd pos)\<^sup>2))"

definition mv_mask :: "int \<times> int \<Rightarrow> nat \<Rightarrow> nat \<Rightarrow> bool" where
  "mv_mask pos y x = (valve_dist pos y x < 50 \<and> int y > snd pos - 30 \<and> int y < snd pos + 60)"

definition fast_flow :: "int \<times> int \<Rightarrow> nat \<Rightarrow> nat \<Rightarrow> bool" where
  "fast_flow pos y x = (mv_mask pos y x \<and> valve_dist pos y x < 20)"

definition tv_mask :: "int \<times> int \<Rightarrow> nat \<Rightarrow> nat \<Rightarrow> bool" where
  "tv_mask pos y x = (valve_dist pos y x < 40 \<and> int y > snd pos - 25 \<and> int y < snd pos + 50)"

text \<open>The flow image before the noise is added (the statements up to the second \<open>if\<close> block).\<close>

definition doppler_flow_field ::
  "CardiacAnatomy \<Rightarrow> real \<Rightarrow> real \<Rightarrow> nat \<Rightarrow> nat \<Rightarrow> (nat \<Rightarrow> real) ndarray" where
  "doppler_flow_field anatomy systole_factor frame_phase height width =
     (let flow_rgb = \<lparr> nrows = height, ncols = width, px = (\<lambda>i j c. 0) \<rparr>;
          diastole_factor = 1 - systole_factor;
          mv = get_mitral_valve anatomy systole_factor;
          flow_rgb =
            (if diastole_factor > 0.3 then
               (let e_wave = sin (frame_phase * 2 * pi) * 0.5 + 0.5;
                    flow_intensity = diastole_factor * e_wave;
                    flow_rgb = assign_channel flow_rgb (mv_mask (v_position mv)) 2
                                 (np_clip (flow_intensity * 0.9) 0 1)
                in assign_channel flow_rgb (fast_flow (v_position mv)) 0
                     (np_clip (flow_intensity * 0.3) 0 1))
             else flow_rgb);
          tv = get_tricuspid_valve anatomy systole_factor
      in if diastole_factor > 0.3
         then assign_channel flow_rgb (tv_mask (v_position tv)) 2
                (np_clip (diastole_factor * 0.7) 0 1)
         else flow_rgb)"

text \<open>
  The end of the function: \<^verbatim>\<open>noise = np.random.normal(0, 0.05, flow_rgb.shape)\<close>,
  \<^verbatim>\<open>flow_rgb = flow_rgb + noise\<close>, \<^verbatim>\<open>flow_rgb = np.clip(flow_rgb, 0, 1)\<close>.
\<close>

definition generate_color_doppler_flow ::
  "'g pylib \<Rightarrow> nat \<Rightarrow> nat \<Rightarrow> CardiacAnatomy \<Rightarrow> real \<Rightarrow> real \<Rightarrow> 'g
     \<Rightarrow> py_error + ((nat \<Rightarrow> real) ndarray \<times> 'g)" where
  "generate_color_doppler_flow lib width height anatomy systole_factor frame_phase g =
     (let flow_rgb = doppler_flow_field anatomy systole_factor frame_phase height width;
          (noise, g') = np_random_normal lib 0 0.05 (nrows flow_rgb) (ncols flow_rgb) g
      in bindE (arr_zip (\<lambda>p n c. p c + n c) flow_rgb noise) (\<lambda>flow_rgb.
         Inr (arr_map (\<lambda>p c. np_clip (p c) 0 1) flow_rgb, g')))"

section \<open>Sector geometry\<close>

text \<open>
  \<open>create_sector_geometry\<close>. \<open>np.arctan2(x1, x2)\<close> is the angle of the point with
  ordinate \<open>x1\<close> and abscissa \<open>x2\<close>; here it is called with the horizontal offset
  first, so that the angle is measured from the vertical through the apex.
\<close>

definition arctan2 :: "real \<Rightarrow> real \<Rightarrow> real" where
  "arctan2 x1 x2 =
     (if 0 < x2 then arctan (x1 / x2)
      else if x2 < 0 then (if 0 \<le> x1 then arctan (x1 / x2) + pi else arctan (x1 / x2) - pi)
      else if 0 < x1 then pi / 2 else if x1 < 0 then - (pi / 2) else 0)"

definition deg2rad :: "real \<Rightarrow> real" where
  "deg2rad x = x * pi / 180"

record sector_geometry =
  sg_mask :: "real ndarray"
  sg_distance_map :: "real ndarray"
  sg_angle_map :: "real ndarray"
  sg_center :: "int \<times> int"
  sg_max_dist :: real

definition create_sector_geometry :: "'g pylib \<Rightarrow> nat \<Rightarrow> nat \<Rightarrow> real \<Rightarrow> sector_geometry" where
  "create_sector_geometry lib width height angle_deg =
     (let cx = int width div 2;
          cy = py_int (real height * 0.02);
          angles = (\<lambda>y x. arctan2 (real_of_int (int x - cx)) (real_of_int (int y - cy)));
          angle_rad = deg2rad (angle_deg / 2);
          distances = (\<lambda>y x. sqrt (real_of_int ((int x - cx)\<^sup>2 + (int y - cy)\<^sup>2)));
          max_dist = real height * 0.92;
          min_dist = real height * 0.03;
          in_sector = (\<lambda>y x. \<bar>angles y x\<bar> \<le> angle_rad);
          in_range = (\<lambda>y x. distances y x \<ge> min_dist \<and> distances y x \<le> max_dist);
          mask0 = \<lparr> nrows = height, ncols = width,
                    px = (\<lambda>y x. if in_sector y x \<and> in_range y x then 1 else 0) \<rparr>;
          mask1 = np_gaussian_filter lib mask0 (2, 2);
          distance_map = \<lparr> nrows = height, ncols = width,
                    px = (\<lambda>y x. np_clip ((distances y x - min_dist) / (max_dist - min_dist)) 0 1) \<rparr>;
          angle_map = \<lparr> nrows = height, ncols = width,
                    px = (\<lambda>y x. np_clip (\<bar>angles y x\<bar> / angle_rad) 0 1) \<rparr>
      in \<lparr> sg_mask = mask1, sg_distance_map = distance_map, sg_angle_map = angle_map,
           sg_center = (cx, cy), sg_max_dist = max_dist \<rparr>)"

section \<open>Lateral resolution\<close>

text \<open>
  \<open>apply_lateral_blur\<close>: for each depth band starting at 0.3, 0.4, ..., 0.9
  (\<open>np.arange(0.3, 1.0, 0.1)\<close>) and 0.15 deep that contains a pixel, the pixels of the
  band are replaced by those of the image blurred along the rows.
\<close>

fun lateral_blur_bands ::
  "'g pylib \<Rightarrow> real ndarray \<Rightarrow> real ndarray \<Rightarrow> real list \<Rightarrow> real ndarray
     \<Rightarrow> py_error + real ndarray" where
  "lateral_blur_bands lib image' distance_map [] result = Inr result"
| "lateral_blur_bands lib image' distance_map (depth_start # rest) result =
     (let depth_end = depth_start + 0.15;
          depth_mask = arr_map (\<lambda>d. if d \<ge> depth_start \<and> d < depth_end then 1 else 0)
                         distance_map
      in if sum_list (arr_elems depth_mask) > 0 then
           (let blur_sigma = 0.5 + depth_start * 1.5;
                blurred = np_gaussian_filter lib image' (0, blur_sigma)
            in bindE (arr_zip (*) result (arr_map (\<lambda>m. 1 - m) depth_mask)) (\<lambda>kept.
               bindE (arr_zip (*) blurred depth_mask) (\<lambda>replaced.
               bindE (arr_zip (+) kept replaced) (\<lambda>result.
               lateral_blur_bands lib image' distance_map rest result))))
         else lateral_blur_bands lib image' distance_map rest result)"

definition apply_lateral_blur ::
  "'g pylib \<Rightarrow> real ndarray \<Rightarrow> real ndarray \<Rightarrow> py_error + real ndarray" where
  "apply_lateral_blur lib image' distance_map =
     lateral_blur_bands lib image' distance_map [0.3, 0.4, 0.5, 0.6, 0.7, 0.8, 0.9] image'"

section \<open>Drawing the heart\<close>

text \<open>
  \<open>astype(np.uint8)\<close> of a float truncates towards zero and keeps the low eight bits.
\<close>

definition astype_uint8 :: "real \<Rightarrow> byte" where
  "astype_uint8 x = word_of_int (py_int x)"

text \<open>
  \<open>draw_heart_structure\<close> converts the image to 8 bits, draws the chambers, septa and
  valve leaflets in this order with PIL, and converts back to floats in \<open>[0,1]\<close>.
\<close>

definition heart_draw_commands :: "CardiacAnatomy \<Rightarrow> real \<Rightarrow> nat \<Rightarrow> nat \<Rightarrow> draw_cmd list" where
  "heart_draw_commands anatomy systole_factor width height =
     (let lv = get_lv_contour anatomy systole_factor;
          (lv_cx, lv_cy) = vc_center lv; (lv_orx, lv_ory) = vc_outer lv;
          (lv_irx, lv_iry) = vc_inner lv; apex_y = vc_apex_y lv;
          rv = get_rv_contour anatomy systole_factor;
          (rv_cx, rv_cy) = vc_center rv; (rv_orx, rv_ory) = vc_outer rv;
          (rv_irx, rv_iry) = vc_inner rv; rv_apex_y = vc_apex_y rv;
          septum_x = a_cx anatomy - py_int (real width * 0.02);
          la = get_la_contour anatomy systole_factor;
          (la_cx, la_cy) = ac_center la; (la_rx, la_ry) = ac_radius la;
          la_wall = ac_wall_thickness la;
          ra = get_ra_contour anatomy systole_factor;
          (ra_cx, ra_cy) = ac_center ra; (ra_rx, ra_ry) = ac_radius ra;
          ra_wall = ac_wall_thickness ra;
          mv = get_mitral_valve anatomy systole_factor;
          (mv_x, mv_y) = v_position mv; mv_open = v_opening mv; mv_len = v_leaflet_length mv;
          tv = get_tricuspid_valve anatomy systole_factor;
          (tv_x, tv_y) = v_position tv; tv_open = v_opening tv; tv_len = v_leaflet_length tv
      in [ Ellipse (lv_cx - lv_orx, apex_y, lv_cx + lv_orx, lv_cy + lv_ory) 145,
           Ellipse (lv_cx - lv_irx, apex_y + 20, lv_cx + lv_irx, lv_cy + lv_iry) 15,
           Ellipse (rv_cx - rv_orx, rv_apex_y, rv_cx + rv_orx, rv_cy + rv_ory) 125,
           Ellipse (rv_cx - rv_irx, rv_apex_y + 15, rv_cx + rv_irx, rv_cy + rv_iry) 18,
           Line [(septum_x, apex_y + 15), (septum_x, a_mid_y anatomy - 10)] 165 20,
           Ellipse (la_cx - la_rx - la_wall, la_cy - la_ry - la_wall,
                    la_cx + la_rx + la_wall, la_cy + la_ry + la_wall) 120,
           Ellipse (la_cx - la_rx, la_cy - la_ry, la_cx + la_rx, la_cy + la_ry) 20,
           Ellipse (ra_cx - ra_rx - ra_wall, ra_cy - ra_ry - ra_wall,
                    ra_cx + ra_rx + ra_wall, ra_cy + ra_ry + ra_wall) 110,
           Ellipse (ra_cx - ra_rx, ra_cy - ra_ry, ra_cx + ra_rx, ra_cy + ra_ry) 22,
           Line [(a_cx anatomy, a_mid_y anatomy + 15),
                 (a_cx anatomy, py_int (real height * 0.75))] 140 12,
           Polygon [(mv_x - 25, mv_y - 5), (mv_x, mv_y + mv_open + mv_len - 10),
                    (mv_x + 10, mv_y - 5)] 210,
           Polygon [(mv_x - 30, mv_y), (mv_x - 10, mv_y + mv_open + mv_len - 20),
                    (mv_x - 35, mv_y + 10)] 195,
           Polygon [(tv_x - 20, tv_y - 3), (tv_x, tv_y + tv_open + tv_len - 15),
                    (tv_x + 15, tv_y - 3)] 190 ])"

definition pil_apply :: "'g pylib \<Rightarrow> byte ndarray \<Rightarrow> draw_cmd \<Rightarrow> byte ndarray" where
  "pil_apply lib img cmd = \<lparr> nrows = nrows img, ncols = ncols img, px = pil_draw lib cmd img \<rparr>"

definition draw_heart_structure ::
  "'g pylib \<Rightarrow> real ndarray \<Rightarrow> CardiacAnatomy \<Rightarrow> real \<Rightarrow> real ndarray" where
  "draw_heart_structure lib image' anatomy systole_factor =
     (let height = nrows image'; width = ncols image';
          img_pil = arr_map (\<lambda>v. astype_uint8 (v * 255)) image';
          img_pil = foldl (pil_apply lib) img_pil
                      (heart_draw_commands anatomy systole_factor width height)
      in arr_map (\<lambda>b. real (unat b) / 255) img_pil)"

section \<open>Frame composition\<close>

text \<open>\<open>np.stack([image, image, image], axis=-1)\<close> and \<open>np.where(cond, a, b)\<close>.\<close>

definition gray_to_rgb :: "'a ndarray \<Rightarrow> (nat \<Rightarrow> 'a) ndarray" where
  "gray_to_rgb a = arr_map (\<lambda>v c. v) a"

definition np_where ::
  "(nat \<Rightarrow> bool) ndarray \<Rightarrow> (nat \<Rightarrow> real) ndarray \<Rightarrow> (nat \<Rightarrow> real) ndarray
     \<Rightarrow> py_error + (nat \<Rightarrow> real) ndarray" where
  "np_where cond a b =
     bindE (arr_zip Pair a b) (\<lambda>ab.
     arr_zip (\<lambda>k ab c. if k c then fst ab c else snd ab c) cond ab)"

text \<open>
  Steps 4 to 8 of \<open>generate_realistic_frame\<close>: the heart is multiplied by the second
  speckle field, then time gain compensation, lateral blur, the sector mask and the
  clipping to \<open>[0,1]\<close> follow.
\<close>

definition compose_gray ::
  "'g pylib \<Rightarrow> sector_geometry \<Rightarrow> real ndarray \<Rightarrow> real ndarray \<Rightarrow> py_error + real ndarray" where
  "compose_gray lib sector heart heart_speckle =
     bindE (arr_zip (*) heart (arr_map (\<lambda>v. 0.85 + v * 0.25) heart_speckle)) (\<lambda>image1.
     bindE (apply_tgc image1 (sg_distance_map sector)) (\<lambda>image2.
     bindE (apply_lateral_blur lib image2 (sg_distance_map sector)) (\<lambda>image3.
     bindE (arr_zip (*) image3 (sg_mask sector)) (\<lambda>image4.
     Inr (arr_map (\<lambda>v. np_clip v 0 1) image4)))))"

text \<open>
  The colour branch: the Doppler overlay is blended in where the heart is dark (blood)
  and the overlay exceeds 0.05, then the image is clipped and quantised to 8 bits.
\<close>

definition overlay_doppler ::
  "real ndarray \<Rightarrow> real ndarray \<Rightarrow> (nat \<Rightarrow> real) ndarray \<Rightarrow> py_error + (nat \<Rightarrow> byte) ndarray" where
  "overlay_doppler image' heart doppler =
     (let image_rgb = gray_to_rgb image';
          blood_mask = arr_map (\<lambda>v. v < 0.1) heart
      in bindE (arr_zip (\<lambda>b d c. b \<and> d c > 0.05) blood_mask doppler) (\<lambda>cond.
         bindE (arr_zip (\<lambda>d p c. d c * 0.8 + p c * 0.2) doppler image_rgb) (\<lambda>blend.
         bindE (np_where cond blend image_rgb) (\<lambda>image_rgb.
         let image_rgb = arr_map (\<lambda>p c. np_clip (p c) 0 1) image_rgb
         in Inr (arr_map (\<lambda>p c. astype_uint8 (p c * 255)) image_rgb)))))"

text \<open>
  \<open>generate_realistic_frame\<close>. The seed of the background speckle is
  \<open>speckle_seed + frame\<close>; the heart speckle is seeded with \<open>seed + 1000\<close> when \<open>seed\<close> is
  a nonzero integer and is not seeded otherwise (\<^verbatim>\<open>seed + 1000 if seed else None\<close>).
\<close>

definition frame_seed :: "int option \<Rightarrow> int \<Rightarrow> int option" where
  "frame_seed speckle_seed frame =
     (case speckle_seed of None \<Rightarrow> None | Some s \<Rightarrow> Some (s + frame))"

definition heart_speckle_seed :: "int option \<Rightarrow> int option" where
  "heart_speckle_seed seed =
     (case seed of None \<Rightarrow> None | Some s \<Rightarrow> if s \<noteq> 0 then Some (s + 1000) else None)"

definition generate_realistic_frame ::
  "'g pylib \<Rightarrow> nat \<Rightarrow> nat \<Rightarrow> int \<Rightarrow> int \<Rightarrow> bool \<Rightarrow> int option \<Rightarrow> 'g
     \<Rightarrow> py_error + ((nat \<Rightarrow> byte) ndarray \<times> 'g)" where
  "generate_realistic_frame lib width height frame total_frames include_color_doppler
       speckle_seed g0 =
     (let anatomy = CardiacAnatomy_init (int width) (int height) in
      bindE (cycle_of frame total_frames) (\<lambda>cycle.
      let phase = phase_of cycle;
          systole_factor = systole_of_phase phase;
          sector = create_sector_geometry lib width height realistic_frame_angle_deg;
          seed = frame_seed speckle_seed frame
      in bindE (generate_realistic_speckle lib width height seed g0) (\<lambda>(speckle, g1).
         let image0 = arr_map (\<lambda>v. v * 0.15) speckle;
             heart = draw_heart_structure lib image0 anatomy systole_factor;
             heart_seed = heart_speckle_seed seed
         in bindE (generate_realistic_speckle lib width height heart_seed g1)
              (\<lambda>(heart_speckle, g2).
            bindE (compose_gray lib sector heart heart_speckle) (\<lambda>image5.
            if include_color_doppler then
              bindE (generate_color_doppler_flow lib width height anatomy systole_factor
                       cycle g2) (\<lambda>(doppler, g3).
              bindE (overlay_doppler image5 heart doppler) (\<lambda>image_rgb.
              Inr (image_rgb, g3)))
            else
              Inr (gray_to_rgb (arr_map (\<lambda>v. astype_uint8 (v * 255)) image5), g2))))))"


section \<open>The frame of the v2 and JPEG scripts\<close>

text \<open>
  \<open>create_sector_mask\<close> of \<open>generate_echo_dicom_v2.py\<close> (the JPEG script has the same
  function): the sector test of \<open>create_sector_geometry\<close> with a maximal distance of
  \<open>0.95 \<sqdot> height\<close>, smoothed by a Gaussian filter.
\<close>

definition create_sector_mask :: "'g pylib \<Rightarrow> nat \<Rightarrow> nat \<Rightarrow> real \<Rightarrow> real ndarray" where
  "create_sector_mask lib width height angle_deg =
     (let cx = int width div 2;
          cy = py_int (real height * 0.02);
          angles = (\<lambda>y x. arctan2 (real_of_int (int x - cx)) (real_of_int (int y - cy)));
          angle_rad = deg2rad (angle_deg / 2);
          in_sector = (\<lambda>y x. \<bar>angles y x\<bar> \<le> angle_rad);
          distances = (\<lambda>y x. sqrt (real_of_int ((int x - cx)\<^sup>2 + (int y - cy)\<^sup>2)));
          max_dist = real height * 0.95;
          min_dist = real height * 0.03;
          in_range = (\<lambda>y x. distances y x \<ge> min_dist \<and> distances y x \<le> max_dist);
          mask0 = \<lparr> nrows = height, ncols = width,
                    px = (\<lambda>y x. if in_sector y x \<and> in_range y x then 1 else 0) \<rparr>
      in np_gaussian_filter lib mask0 (2, 2))"

text \<open>
  \<open>generate_4chamber_frame\<close>: the chambers are drawn on a black 8-bit image of size
  \<open>width \<times> height\<close> with the sizes of \<open>chamber_sizes_4chamber\<close>; the phase of the cycle
  is computed first and raises \<open>ZeroDivisionError\<close> when \<open>total_frames\<close> is 0.
\<close>

definition chamber_draw_commands :: "real \<Rightarrow> nat \<Rightarrow> nat \<Rightarrow> draw_cmd list" where
  "chamber_draw_commands systole_factor width height =
     (let sizes = chamber_sizes_4chamber systole_factor;
          apex_y = py_int (real height * 0.12);
          base_y = py_int (real height * 0.75);
          mid_y = py_int (real height * 0.45);
          center_x = int width div 2;
          lv_cx = center_x - py_int (real width * 0.12);
          lv_cy = py_int (real height * 0.35);
          (lv_outer_rx, lv_outer_ry) = lv_outer sizes;
          (lv_inner_rx, lv_inner_ry) = lv_inner sizes;
          rv_cx = center_x + py_int (real width * 0.15);
          rv_cy = py_int (real height * 0.32);
          (rv_outer_rx, rv_outer_ry) = rv_outer sizes;
          (rv_inner_rx, rv_inner_ry) = rv_inner sizes;
          septum_x = center_x;
          la_cx = center_x - py_int (real width * 0.14);
          la_cy = py_int (real height * 0.62);
          (la_rx, la_ry) = la_radius sizes;
          ra_cx = center_x + py_int (real width * 0.16);
          ra_cy = py_int (real height * 0.60);
          (ra_rx, ra_ry) = ra_radius sizes;
          mv_y = mid_y; mv_x = lv_cx; mv_open = mv_opening sizes;
          tv_y = mid_y - 5; tv_x = rv_cx - 15; tv_open = tv_opening sizes;
          pv_y = la_cy - la_ry - 5
      in [ Ellipse (lv_cx - lv_outer_rx, apex_y, lv_cx + lv_outer_rx, lv_cy + lv_outer_ry) 170,
           Ellipse (lv_cx - lv_inner_rx, apex_y + 25, lv_cx + lv_inner_rx, lv_cy + lv_inner_ry) 12,
           Ellipse (rv_cx - rv_outer_rx, apex_y + 15, rv_cx + rv_outer_rx, rv_cy + rv_outer_ry) 150,
           Ellipse (rv_cx - rv_inner_rx, apex_y + 30, rv_cx + rv_inner_rx, rv_cy + rv_inner_ry) 15,
           Line [(septum_x, apex_y + 20), (septum_x, mid_y - 10)] 190 18,
           Ellipse (la_cx - la_rx - 8, la_cy - la_ry - 8, la_cx + la_rx + 8, la_cy + la_ry + 8) 140,
           Ellipse (la_cx - la_rx, la_cy - la_ry, la_cx + la_rx, la_cy + la_ry) 18,
           Ellipse (ra_cx - ra_rx - 6, ra_cy - ra_ry - 6, ra_cx + ra_rx + 6, ra_cy + ra_ry + 6) 130,
           Ellipse (ra_cx - ra_rx, ra_cy - ra_ry, ra_cx + ra_rx, ra_cy + ra_ry) 20,
           Line [(septum_x, mid_y + 20), (septum_x, base_y - 30)] 160 10,
           Polygon [(mv_x - 30, mv_y), (mv_x - 5, mv_y + mv_open + 20), (mv_x + 5, mv_y)] 200,
           Polygon [(mv_x - 35, mv_y + 5), (mv_x - 15, mv_y + mv_open + 10),
                    (mv_x - 40, mv_y + 15)] 190,
           Polygon [(tv_x - 20, tv_y), (tv_x, tv_y + tv_open + 15), (tv_x + 15, tv_y)] 180,
           Ellipse (la_cx - 25, pv_y - 8, la_cx - 10, pv_y + 8) 25,
           Ellipse (la_cx + 10, pv_y - 8, la_cx + 25, pv_y + 8) 25 ])"

definition generate_4chamber_frame ::
  "'g pylib \<Rightarrow> nat \<Rightarrow> nat \<Rightarrow> int \<Rightarrow> int \<Rightarrow> py_error + real ndarray" where
  "generate_4chamber_frame lib width height frame total_frames =
     (let img = \<lparr> nrows = height, ncols = width, px = (\<lambda>i j. 0) \<rparr> in
      bindE (cycle_of frame total_frames) (\<lambda>cycle.
      let phase = phase_of cycle;
          systole_factor = systole_of_phase phase;
          img = foldl (pil_apply lib) img (chamber_draw_commands systole_factor width height);
          heart = arr_map (\<lambda>b. real (unat b) / 255) img
      in Inr heart))"

text \<open>
  \<open>generate_echo_frame_v2\<close> (and \<open>generate_echo_frame\<close> of the JPEG script): sector
  mask, background, speckle and heart are added with weights, the artifacts are
  applied, and the image is clipped to \<open>[0,1]\<close> and quantised to 8 bits.
\<close>

definition generate_echo_frame_v2 ::
  "'g pylib \<Rightarrow> nat \<Rightarrow> nat \<Rightarrow> int \<Rightarrow> int \<Rightarrow> 'g \<Rightarrow> py_error + (byte ndarray \<times> 'g)" where
  "generate_echo_frame_v2 lib width height frame total_frames g =
     (let mask' = create_sector_mask lib width height echo_frame_angle_deg;
          background = \<lparr> nrows = height, ncols = width, px = (\<lambda>i j. 1 * 0.02) \<rparr>
      in bindE (generate_speckle_noise lib width height 0.25 g) (\<lambda>(speckle, g1).
         bindE (generate_4chamber_frame lib width height frame total_frames) (\<lambda>heart.
         bindE (arr_zip (+) background (arr_map (\<lambda>v. v * 0.3) speckle)) (\<lambda>image0.
         bindE (arr_zip (+) image0 (arr_map (\<lambda>v. v * 0.85) heart)) (\<lambda>image1.
         bindE (apply_ultrasound_artifacts image1 mask') (\<lambda>image2.
         let image3 = arr_map (\<lambda>v. np_clip v 0 1) image2
         in Inr (arr_map (\<lambda>v. astype_uint8 (v * 255)) image3, g1)))))))"


section \<open>The image before quantisation\<close>

text \<open>
  PIL's \<open>ellipse\<close> takes a box \<open>[x0, y0, x1, y1]\<close> and needs \<open>x0 \<le> x1\<close> and \<open>y0 \<le> y1\<close>
  (it raises \<open>ValueError\<close> otherwise); lines and polygons take any points. The results of
  \<open>pil_draw\<close> are those of PIL on the commands it accepts.
\<close>

fun box_ordered :: "draw_cmd \<Rightarrow> bool" where
  "box_ordered (Ellipse (x0, y0, x1, y1) fill) = (x0 \<le> x1 \<and> y0 \<le> y1)"
| "box_ordered (Line points fill w) = True"
| "box_ordered (Polygon points fill) = True"

text \<open>
  The colour branch of \<open>generate_realistic_frame\<close> up to
  \<^verbatim>\<open>image_rgb = np.clip(image_rgb, 0, 1)\<close>, that is \<open>overlay_doppler\<close> without its last
  statement \<^verbatim>\<open>image_rgb = (image_rgb * 255).astype(np.uint8)\<close>.
\<close>

definition overlay_doppler_clipped ::
  "real ndarray \<Rightarrow> real ndarray \<Rightarrow> (nat \<Rightarrow> real) ndarray \<Rightarrow> py_error + (nat \<Rightarrow> real) ndarray" where
  "overlay_doppler_clipped image' heart doppler =
     (let image_rgb = gray_to_rgb image';
          blood_mask = arr_map (\<lambda>v. v < 0.1) heart
      in bindE (arr_zip (\<lambda>b d c. b \<and> d c > 0.05) blood_mask doppler) (\<lambda>cond.
         bindE (arr_zip (\<lambda>d p c. d c * 0.8 + p c * 0.2) doppler image_rgb) (\<lambda>blend.
         bindE (np_where cond blend image_rgb) (\<lambda>image_rgb.
         Inr (arr_map (\<lambda>p c. np_clip (p c) 0 1) image_rgb)))))"

text \<open>
  The float image that \<open>generate_realistic_frame\<close> holds when it reaches its
  quantisation statement: the clipped grey image of step 8 without the Doppler overlay
  (quantised, then stacked to three channels), the clipped colour image with it. The
  sample that the quantisation reads for pixel \<open>(i, j)\<close> and channel \<open>c\<close> is
  \<open>intensity_at\<close>.
\<close>

datatype frame_intensity = Gray "real ndarray" | Colour "(nat \<Rightarrow> real) ndarray"

fun intensity_at :: "frame_intensity \<Rightarrow> nat \<Rightarrow> nat \<Rightarrow> nat \<Rightarrow> real" where
  "intensity_at (Gray image') i j c = px image' i j"
| "intensity_at (Colour image_rgb) i j c = px image_rgb i j c"

fun quantize_frame :: "frame_intensity \<Rightarrow> (nat \<Rightarrow> byte) ndarray" where
  "quantize_frame (Gray image') = gray_to_rgb (arr_map (\<lambda>v. astype_uint8 (v * 255)) image')"
| "quantize_frame (Colour image_rgb) = arr_map (\<lambda>p c. astype_uint8 (p c * 255)) image_rgb"

text \<open>
  \<open>generate_realistic_frame\<close> up to its quantisation statement (the statements before
  \<^verbatim>\<open>(image_rgb * 255).astype(np.uint8)\<close> and \<^verbatim>\<open>(image * 255).astype(np.uint8)\<close>).
\<close>

definition compose_realistic_frame ::
  "'g pylib \<Rightarrow> nat \<Rightarrow> nat \<Rightarrow> int \<Rightarrow> int \<Rightarrow> bool \<Rightarrow> int option \<Rightarrow> 'g
     \<Rightarrow> py_error + (frame_intensity \<times> 'g)" where
  "compose_realistic_frame lib width height frame total_frames include_color_doppler
       speckle_seed g0 =
     (let anatomy = CardiacAnatomy_init (int width) (int height) in
      bindE (cycle_of frame total_frames) (\<lambda>cycle.
      let phase = phase_of cycle;
          systole_factor = systole_of_phase phase;
          sector = create_sector_geometry lib width height realistic_frame_angle_deg;
          seed = frame_seed speckle_seed frame
      in bindE (generate_realistic_speckle lib width height seed g0) (\<lambda>(speckle, g1).
         let image0 = arr_map (\<lambda>v. v * 0.15) speckle;
             heart = draw_heart_structure lib image0 anatomy systole_factor;
             heart_seed = heart_speckle_seed seed
         in bindE (generate_realistic_speckle lib width height heart_seed g1)
              (\<lambda>(heart_speckle, g2).
            bindE (compose_gray lib sector heart heart_speckle) (\<lambda>image5.
            if include_color_doppler then
              bindE (generate_color_doppler_flow lib width height anatomy systole_factor
                       cycle g2) (\<lambda>(doppler, g3).
              bindE (overlay_doppler_clipped image5 heart doppler) (\<lambda>image_rgb.
              Inr (Colour image_rgb, g3)))
            else
              Inr (Gray image5, g2))))))"

text \<open>
  \<open>generate_echo_frame_v2\<close> up to its quantisation statement
  \<^verbatim>\<open>image = (image * 255).astype(np.uint8)\<close>.
\<close>

definition compose_echo_frame_v2 ::
  "'g pylib \<Rightarrow> nat \<Rightarrow> nat \<Rightarrow> int \<Rightarrow> int \<Rightarrow> 'g \<Rightarrow> py_error + (real ndarray \<times> 'g)" where
  "compose_echo_frame_v2 lib width height frame total_frames g =
     (let mask' = create_sector_mask lib width height echo_frame_angle_deg;
          background = \<lparr> nrows = height, ncols = width, px = (\<lambda>i j. 1 * 0.02) \<rparr>
      in bindE (generate_speckle_noise lib width height 0.25 g) (\<lambda>(speckle, g1).
         bindE (generate_4chamber_frame lib width height frame total_frames) (\<lambda>heart.
         bindE (arr_zip (+) background (arr_map (\<lambda>v. v * 0.3) speckle)) (\<lambda>image0.
         bindE (arr_zip (+) image0 (arr_map (\<lambda>v. v * 0.85) heart)) (\<lambda>image1.
         bindE (apply_ultrasound_artifacts image1 mask') (\<lambda>image2.
         Inr (arr_map (\<lambda>v. np_clip v 0 1) image2, g1)))))))"

text \<open>
  A second library instance for closed examples, whose generator state is a counter that
  every draw advances and whose draws depend on the counter.
\<close>

definition counter_lib :: "nat pylib" where
  "counter_lib =
     \<lparr> seed_state = (\<lambda>s. nat s),
       rayleigh = (\<lambda>scale h w g. (\<lambda>i j. real g + 1, Suc g)),
       normal = (\<lambda>loc scale h w g. (\<lambda>i j c. real g / 100, Suc g)),
       gaussian_filter = (\<lambda>a sigma. px a),
       pil_draw = (\<lambda>cmd img. px img) \<rparr>"

section \<open>Properties of the cycle phase\<close>

lemma systole_of_phase_range: "0 \<le> systole_of_phase p \<and> systole_of_phase p \<le> 1"
proof -
  have "- 1 \<le> sin p" and "sin p \<le> 1" by simp_all
  then have "0 \<le> sin p + 1" and "sin p + 1 \<le> 2" by linarith+
  then show ?thesis unfolding systole_of_phase_def by simp
qed

lemma phase_shift_full_cycle:
  assumes "total_frames \<noteq> 0"
  shows "phase_of (real_of_int (frame + total_frames) / real_of_int total_frames)
       = phase_of (real_of_int frame / real_of_int total_frames) + 2 * pi"
  using assms unfolding phase_of_def by (simp add: field_simps)

lemma systole_of_phase_periodic: "systole_of_phase (p + 2 * pi) = systole_of_phase p"
  unfolding systole_of_phase_def by simp

text \<open>
  Over the reals the formula has period \<open>total_frames\<close>. This is a property of the exact
  value: \<open>2 * np.pi\<close> is a float below \<open>2\<pi>\<close>, so the floating-point phase of frame
  \<open>frame + total_frames\<close> is not the phase of \<open>frame\<close> plus a period of the sine, and
  the two rounded factors agree only up to rounding.
\<close>

lemma exact_systole_factor_periodic:
  assumes "total_frames \<noteq> 0"
  shows "frame_systole_factor (frame + total_frames) total_frames
           = frame_systole_factor frame total_frames"
proof -
  let ?c = "real_of_int frame / real_of_int total_frames"
  let ?c' = "real_of_int (frame + total_frames) / real_of_int total_frames"
  have a: "frame_systole_factor frame total_frames = Inr (systole_of_phase (phase_of ?c))"
    using assms by (simp add: frame_systole_factor_def cycle_of_def true_div_def bindE_def)
  have b: "frame_systole_factor (frame + total_frames) total_frames
             = Inr (systole_of_phase (phase_of ?c'))"
    using assms by (simp add: frame_systole_factor_def cycle_of_def true_div_def bindE_def)
  have "systole_of_phase (phase_of ?c') = systole_of_phase (phase_of ?c)"
    using phase_shift_full_cycle [OF assms, of frame] systole_of_phase_periodic by simp
  with a b show ?thesis by simp
qed

lemma exact_ops_systole_factor:
  "frame_systole_factor_fl exact_ops frame total_frames = frame_systole_factor frame total_frames"
  by (simp add: frame_systole_factor_fl_def frame_systole_factor_def exact_ops_def cycle_of_def
      phase_of_def systole_of_phase_def Let_def bindE_def split: sum.splits)

lemma exact_ops_monotone: "rounding_monotone exact_ops"
  by (simp add: rounding_monotone_def exact_ops_def)

lemma grid_round_mono: "x \<le> y \<Longrightarrow> grid_round x \<le> grid_round y"
  unfolding grid_round_def by (intro divide_right_mono iffD2 [OF of_int_le_iff] floor_mono) simp_all

lemma grid_round_int [simp]: "grid_round (real_of_int n) = real_of_int n"
proof -
  have "\<lfloor>real_of_int n * 1024 + 1 / 2\<rfloor> = n * 1024"
    by (rule floor_unique) simp_all
  then show ?thesis by (simp add: grid_round_def)
qed

lemma grid_ops_monotone: "rounding_monotone grid_ops"
proof -
  have i: "grid_round 0 = 0" "grid_round 1 = 1" "grid_round 2 = 2" "grid_round (- 1) = - 1"
    using grid_round_int [of 0] grid_round_int [of 1] grid_round_int [of 2]
      grid_round_int [of "- 1"] by simp_all
  have "- 1 \<le> grid_round (sin x) \<and> grid_round (sin x) \<le> 1" for x
    using grid_round_mono [of "- 1" "sin x"] grid_round_mono [of "sin x" 1] i by simp
  then show ?thesis
    by (simp add: rounding_monotone_def grid_ops_def i grid_round_mono)
qed

lemma systole_factor_fl_range:
  assumes "total_frames \<noteq> 0" and "rounding_monotone ops"
  shows "\<exists>s. frame_systole_factor_fl ops frame total_frames = Inr s \<and> 0 \<le> s \<and> s \<le> 1"
proof -
  from assms(2) have mono: "\<And>x y. x \<le> y \<Longrightarrow> fl ops x \<le> fl ops y"
    and f0: "fl ops 0 = 0" and f1: "fl ops 1 = 1" and f2: "fl ops 2 = 2"
    and sn: "\<And>x. - 1 \<le> fl_sin ops x \<and> fl_sin ops x \<le> 1"
    unfolding rounding_monotone_def by blast+
  let ?cycle = "fl ops (real_of_int frame / real_of_int total_frames)"
  let ?phase = "fl ops (fl ops (2 * fl_pi ops) * ?cycle)"
  let ?t = "fl ops (fl_sin ops ?phase + 1)"
  have "0 \<le> fl_sin ops ?phase + 1" and "fl_sin ops ?phase + 1 \<le> 2"
    using sn [of ?phase] by linarith+
  then have "0 \<le> ?t" and "?t \<le> 2"
    using mono [of 0 "fl_sin ops ?phase + 1"] mono [of "fl_sin ops ?phase + 1" 2] f0 f2
    by simp_all
  then have "0 \<le> ?t / 2" and "?t / 2 \<le> 1" by simp_all
  then have r: "0 \<le> fl ops (?t / 2)" "fl ops (?t / 2) \<le> 1"
    using mono [of 0 "?t / 2"] mono [of "?t / 2" 1] f0 f1 by simp_all
  have "frame_systole_factor_fl ops frame total_frames = Inr (fl ops (?t / 2))"
    using assms(1) by (simp add: frame_systole_factor_fl_def true_div_def Let_def bindE_def)
  with r show ?thesis by simp
qed




section \<open>Antiphase motion of ventricles, atria and valves\<close>

lemma py_int_mono: "x \<le> y \<Longrightarrow> py_int x \<le> py_int y"
proof -
  assume xy: "x \<le> y"
  show ?thesis
  proof (cases "0 \<le> x")
    case True
    with xy show ?thesis by (simp add: py_int_def floor_mono)
  next
    case False
    show ?thesis
    proof (cases "0 \<le> y")
      case True
      from False have "\<lceil>x\<rceil> \<le> 0" by (simp add: ceiling_le_zero)
      moreover from True have "0 \<le> \<lfloor>y\<rfloor>" by simp
      ultimately have "\<lceil>x\<rceil> \<le> \<lfloor>y\<rfloor>" by linarith
      then show ?thesis using False True by (simp add: py_int_def)
    next
      case y: False
      with False xy show ?thesis by (simp add: py_int_def ceiling_mono)
    qed
  qed
qed

lemma shrink_mono:
  assumes "s1 \<le> s2" and "0 \<le> d" and "0 \<le> k" and "0 \<le> c"
  shows "py_int (d * (1 - k * s2 * c)) \<le> py_int (d * (1 - k * s1 * c))"
proof -
  have "k * s1 * c \<le> k * s2 * c"
    using assms by (simp add: mult_left_mono mult_right_mono)
  then have "d * (1 - k * s2 * c) \<le> d * (1 - k * s1 * c)"
    using assms(2) by (simp add: mult_left_mono)
  then show ?thesis by (rule py_int_mono)
qed

lemma grow_mono:
  assumes "s1 \<le> s2" and "0 \<le> d" and "0 \<le> k"
  shows "py_int (d * (1 + k * s1)) \<le> py_int (d * (1 + k * s2))"
proof -
  have "k * s1 \<le> k * s2" using assms by (simp add: mult_left_mono)
  then have "d * (1 + k * s1) \<le> d * (1 + k * s2)"
    using assms(2) by (simp add: mult_left_mono)
  then show ?thesis by (rule py_int_mono)
qed

lemma opening_mono:
  assumes "s1 \<le> s2" and "0 \<le> d"
  shows "py_int (d * (1 - s2)) \<le> py_int (d * (1 - s1))"
proof -
  have "d * (1 - s2) \<le> d * (1 - s1)" using assms by (simp add: mult_left_mono)
  then show ?thesis by (rule py_int_mono)
qed

lemma lv_contour_shrinks:
  assumes "s1 \<le> s2" and "0 \<le> a_width a" and "0 \<le> a_height a"
  shows "radii_le (vc_outer (get_lv_contour a s2)) (vc_outer (get_lv_contour a s1))"
    and "radii_le (vc_inner (get_lv_contour a s2)) (vc_inner (get_lv_contour a s1))"
  using shrink_mono [OF assms(1), of "real_of_int (a_width a) * 0.14" "0.22" "0.15"]
    shrink_mono [OF assms(1), of "real_of_int (a_height a) * 0.32" "0.22" "0.1"]
    shrink_mono [OF assms(1), of "real_of_int (a_width a) * 0.10" "0.22" "0.4"]
    shrink_mono [OF assms(1), of "real_of_int (a_height a) * 0.26" "0.22" "0.35"]
    assms(2,3)
  by (simp_all add: get_lv_contour_def radii_le_def Let_def)

lemma rv_contour_shrinks:
  assumes "s1 \<le> s2" and "0 \<le> a_width a" and "0 \<le> a_height a"
  shows "radii_le (vc_outer (get_rv_contour a s2)) (vc_outer (get_rv_contour a s1))"
    and "radii_le (vc_inner (get_rv_contour a s2)) (vc_inner (get_rv_contour a s1))"
  using shrink_mono [OF assms(1), of "real_of_int (a_width a) * 0.11" "0.15" "0.15"]
    shrink_mono [OF assms(1), of "real_of_int (a_height a) * 0.28" "0.15" "0.1"]
    shrink_mono [OF assms(1), of "real_of_int (a_width a) * 0.08" "0.15" "0.35"]
    shrink_mono [OF assms(1), of "real_of_int (a_height a) * 0.23" "0.15" "0.3"]
    assms(2,3)
  by (simp_all add: get_rv_contour_def radii_le_def Let_def)

lemma atria_expand:
  assumes "s1 \<le> s2" and "0 \<le> a_width a" and "0 \<le> a_height a"
  shows "radii_le (ac_radius (get_la_contour a s1)) (ac_radius (get_la_contour a s2))"
    and "radii_le (ac_radius (get_ra_contour a s1)) (ac_radius (get_ra_contour a s2))"
  using grow_mono [OF assms(1), of "real_of_int (a_width a) * 0.12" "0.12"]
    grow_mono [OF assms(1), of "real_of_int (a_height a) * 0.12" "0.12"]
    grow_mono [OF assms(1), of "real_of_int (a_width a) * 0.10" "0.10"]
    grow_mono [OF assms(1), of "real_of_int (a_height a) * 0.11" "0.10"]
    assms(2,3)
  by (simp_all add: get_la_contour_def get_ra_contour_def radii_le_def Let_def)

lemma valves_close:
  assumes "s1 \<le> s2"
  shows "v_opening (get_mitral_valve a s2) \<le> v_opening (get_mitral_valve a s1)"
    and "v_opening (get_tricuspid_valve a s2) \<le> v_opening (get_tricuspid_valve a s1)"
  using opening_mono [OF assms, of 30] opening_mono [OF assms, of 25]
  by (simp_all add: get_mitral_valve_def get_tricuspid_valve_def Let_def)

lemma v2_ventricles_shrink:
  assumes "s1 \<le> s2"
  shows "radii_le (lv_outer (chamber_sizes_4chamber s2)) (lv_outer (chamber_sizes_4chamber s1))"
    and "radii_le (lv_inner (chamber_sizes_4chamber s2)) (lv_inner (chamber_sizes_4chamber s1))"
    and "radii_le (rv_outer (chamber_sizes_4chamber s2)) (rv_outer (chamber_sizes_4chamber s1))"
    and "radii_le (rv_inner (chamber_sizes_4chamber s2)) (rv_inner (chamber_sizes_4chamber s1))"
  using shrink_mono [OF assms, of 75 "0.18" "0.3"] shrink_mono [OF assms, of 140 "0.18" "0.2"]
    shrink_mono [OF assms, of 55 "0.18" 1] shrink_mono [OF assms, of 115 "0.18" "0.8"]
    shrink_mono [OF assms, of 65 "0.12" "0.3"] shrink_mono [OF assms, of 120 "0.12" "0.2"]
    shrink_mono [OF assms, of 50 "0.12" 1] shrink_mono [OF assms, of 100 "0.12" "0.7"]
  by (simp_all add: chamber_sizes_4chamber_def radii_le_def Let_def)

lemma v2_atria_expand_valves_close:
  assumes "s1 \<le> s2"
  shows "radii_le (la_radius (chamber_sizes_4chamber s1)) (la_radius (chamber_sizes_4chamber s2))"
    and "radii_le (ra_radius (chamber_sizes_4chamber s1)) (ra_radius (chamber_sizes_4chamber s2))"
    and "mv_opening (chamber_sizes_4chamber s2) \<le> mv_opening (chamber_sizes_4chamber s1)"
    and "tv_opening (chamber_sizes_4chamber s2) \<le> tv_opening (chamber_sizes_4chamber s1)"
  using grow_mono [OF assms, of 70 "0.08"] grow_mono [OF assms, of 55 "0.08"]
    grow_mono [OF assms, of 60 "0.06"] grow_mono [OF assms, of 50 "0.06"]
    opening_mono [OF assms, of 25] opening_mono [OF assms, of 20]
  by (simp_all add: chamber_sizes_4chamber_def radii_le_def Let_def)

text \<open>
  Claim C7. For systole factors \<open>s1 \<le> s2\<close> in \<open>[0,1]\<close> and a non-negative image
  size, every ventricular (LV, RV) outer and inner radius at \<open>s2\<close> is at most its value
  at \<open>s1\<close>, every atrial (LA, RA) radius at \<open>s2\<close> is at least its value at \<open>s1\<close>, and
  the mitral and tricuspid openings at \<open>s2\<close> are at most their values at \<open>s1\<close>, both in
  the \<open>CardiacAnatomy\<close> class and in \<open>generate_4chamber_frame\<close>.
\<close>

theorem antiphase_sizes:
  assumes "0 \<le> s1" and "s1 \<le> s2" and "s2 \<le> 1"
    and "0 \<le> a_width a" and "0 \<le> a_height a"
  shows "radii_le (vc_outer (get_lv_contour a s2)) (vc_outer (get_lv_contour a s1))
       \<and> radii_le (vc_inner (get_lv_contour a s2)) (vc_inner (get_lv_contour a s1))
       \<and> radii_le (vc_outer (get_rv_contour a s2)) (vc_outer (get_rv_contour a s1))
       \<and> radii_le (vc_inner (get_rv_contour a s2)) (vc_inner (get_rv_contour a s1))
       \<and> radii_le (ac_radius (get_la_contour a s1)) (ac_radius (get_la_contour a s2))
       \<and> radii_le (ac_radius (get_ra_contour a s1)) (ac_radius (get_ra_contour a s2))
       \<and> v_opening (get_mitral_valve a s2) \<le> v_opening (get_mitral_valve a s1)
       \<and> v_opening (get_tricuspid_valve a s2) \<le> v_opening (get_tricuspid_valve a s1)
       \<and> radii_le (lv_outer (chamber_sizes_4chamber s2)) (lv_outer (chamber_sizes_4chamber s1))
       \<and> radii_le (lv_inner (chamber_sizes_4chamber s2)) (lv_inner (chamber_sizes_4chamber s1))
       \<and> radii_le (rv_outer (chamber_sizes_4chamber s2)) (rv_outer (chamber_sizes_4chamber s1))
       \<and> radii_le (rv_inner (chamber_sizes_4chamber s2)) (rv_inner (chamber_sizes_4chamber s1))
       \<and> radii_le (la_radius (chamber_sizes_4chamber s1)) (la_radius (chamber_sizes_4chamber s2))
       \<and> radii_le (ra_radius (chamber_sizes_4chamber s1)) (ra_radius (chamber_sizes_4chamber s2))
       \<and> mv_opening (chamber_sizes_4chamber s2) \<le> mv_opening (chamber_sizes_4chamber s1)
       \<and> tv_opening (chamber_sizes_4chamber s2) \<le> tv_opening (chamber_sizes_4chamber s1)"
  using lv_contour_shrinks [OF assms(2,4,5)] rv_contour_shrinks [OF assms(2,4,5)]
    atria_expand [OF assms(2,4,5)] valves_close [OF assms(2)]
    v2_ventricles_shrink [OF assms(2)] v2_atria_expand_valves_close [OF assms(2)]
  by blast

theorem antiphase_sizes_witness:
  "(0::real) \<le> 0 \<and> (0::real) \<le> 1 \<and> (1::real) \<le> 1
   \<and> 0 \<le> a_width (CardiacAnatomy_init 640 480) \<and> 0 \<le> a_height (CardiacAnatomy_init 640 480)
   \<and> radii_le (vc_outer (get_lv_contour (CardiacAnatomy_init 640 480) 1))
               (vc_outer (get_lv_contour (CardiacAnatomy_init 640 480) 0))
   \<and> radii_le (ac_radius (get_la_contour (CardiacAnatomy_init 640 480) 0))
               (ac_radius (get_la_contour (CardiacAnatomy_init 640 480) 1))
   \<and> v_opening (get_mitral_valve (CardiacAnatomy_init 640 480) 1)
        \<le> v_opening (get_mitral_valve (CardiacAnatomy_init 640 480) 0)
   \<and> radii_le (lv_inner (chamber_sizes_4chamber 1)) (lv_inner (chamber_sizes_4chamber 0))"
  using antiphase_sizes [of 0 1 "CardiacAnatomy_init 640 480"]
  by (simp add: CardiacAnatomy_init_def)

section \<open>Shape of the gain curve\<close>

lemma sin_lipschitz: "\<bar>sin x - sin y\<bar> \<le> \<bar>x - y\<bar>" for x y :: real
proof -
  have "\<bar>sin x - sin y\<bar> = 2 * \<bar>sin ((x - y) / 2)\<bar> * \<bar>cos ((x + y) / 2)\<bar>"
    by (simp add: sin_diff_sin abs_mult)
  also have "\<dots> \<le> 2 * \<bar>(x - y) / 2\<bar> * 1"
    by (intro mult_mono mult_nonneg_nonneg abs_sin_x_le_abs_x abs_cos_le_one) simp_all
  also have "\<dots> = \<bar>x - y\<bar>" by simp
  finally show ?thesis .
qed

lemma tgc_gain_strict_mono:
  assumes "d1 < d2" shows "tgc_gain d1 < tgc_gain d2"
proof -
  have "\<bar>sin (d2 * pi) - sin (d1 * pi)\<bar> \<le> \<bar>d2 * pi - d1 * pi\<bar>" by (rule sin_lipschitz)
  also have "\<dots> = (d2 - d1) * pi" using assms by (simp add: algebra_simps abs_if)
  also have "\<dots> \<le> (d2 - d1) * 4" using assms pi_less_4 by (intro mult_left_mono) simp_all
  finally have "sin (d1 * pi) - sin (d2 * pi) \<le> (d2 - d1) * 4" by linarith
  with assms show ?thesis unfolding tgc_gain_def by simp
qed

lemma tgc_gain_ends: "tgc_gain 0 = 0.7" "tgc_gain 1 = 1.3"
  by (simp_all add: tgc_gain_def)

lemma arr_zip_same_shape:
  assumes "nrows b = nrows a" and "ncols b = ncols a"
  shows "arr_zip f a b = Inr \<lparr> nrows = nrows a, ncols = ncols a,
                                px = (\<lambda>i j. f (bpx a i j) (bpx b i j)) \<rparr>"
  using assms by (simp add: arr_zip_def broadcast_dim_def)

lemma bpx_inside: "i < nrows a \<Longrightarrow> j < ncols a \<Longrightarrow> bpx a i j = px a i j"
  by (auto simp: bpx_def)

lemma apply_tgc_px:
  assumes "nrows dm = nrows im" and "ncols dm = ncols im"
    and "i < nrows im" and "j < ncols im"
  shows "\<exists>out. apply_tgc im dm = Inr out \<and> nrows out = nrows im \<and> ncols out = ncols im
           \<and> px out i j = px im i j * tgc_gain (px dm i j)"
proof -
  let ?g = "arr_map tgc_gain dm"
  have s: "nrows ?g = nrows im" "ncols ?g = ncols im"
    using assms(1,2) by (simp_all add: arr_map_def)
  have g: "bpx ?g i j = tgc_gain (px dm i j)"
    using assms by (auto simp: bpx_def arr_map_def)
  show ?thesis
    using arr_zip_same_shape [OF s, of "(*)"] g bpx_inside [OF assms(3,4)]
    by (simp add: apply_tgc_def Let_def)
qed

text \<open>
  Claim C6 as stated (the gain is not monotonically increasing on \<open>[0,1]\<close>) fails:
  no two depths in \<open>[0,1]\<close> are in decreasing order of gain.
\<close>

theorem tgc_gain_has_no_decrease:
  "\<not> (\<exists>d1 d2. 0 \<le> d1 \<and> d1 \<le> d2 \<and> d2 \<le> 1 \<and> tgc_gain d2 < tgc_gain d1)"
proof
  assume "\<exists>d1 d2. 0 \<le> d1 \<and> d1 \<le> d2 \<and> d2 \<le> 1 \<and> tgc_gain d2 < tgc_gain d1"
  then obtain d1 d2 where le: "d1 \<le> d2" and lt: "tgc_gain d2 < tgc_gain d1" by blast
  show False
  proof (cases "d1 = d2")
    case True
    with lt show False by simp
  next
    case False
    with le have "d1 < d2" by simp
    from tgc_gain_strict_mono [OF this] lt show False by simp
  qed
qed

text \<open>
  Claim C6, amended. The TGC step multiplies each pixel by a gain that depends on its
  normalised depth, and the gain is strictly increasing in depth: \<open>0.7 + 0.6 d + 0.1 sin(\<pi> d)\<close>
  in \<open>apply_tgc\<close>, running from 0.7 (near-field suppression) at depth 0 to 1.3 (far-field
  boost) at depth 1, and \<open>0.7 + 0.5 y\<close> in \<open>apply_ultrasound_artifacts\<close>.
\<close>

theorem tgc_gain_strictly_increasing:
  assumes "0 \<le> d1" and "d1 < d2" and "d2 \<le> 1"
    and "nrows dm = nrows im" and "ncols dm = ncols im"
    and "i < nrows im" and "j < ncols im"
  shows "tgc_gain d1 < tgc_gain d2 \<and> tgc_gain 0 = 0.7 \<and> tgc_gain 1 = 1.3
       \<and> tgc_gain_v2 d1 < tgc_gain_v2 d2
       \<and> (\<exists>out. apply_tgc im dm = Inr out \<and> nrows out = nrows im \<and> ncols out = ncols im
              \<and> px out i j = px im i j * tgc_gain (px dm i j))"
  using tgc_gain_strict_mono [OF assms(2)] tgc_gain_ends assms(2)
    apply_tgc_px [OF assms(4-7)]
  by (simp add: tgc_gain_v2_def)

theorem tgc_gain_strictly_increasing_witness:
  "(0::real) \<le> 0 \<and> (0::real) < 1 \<and> (1::real) \<le> 1
   \<and> tgc_gain 0 < tgc_gain 1 \<and> tgc_gain_v2 0 < tgc_gain_v2 1
   \<and> (\<exists>out. apply_tgc \<lparr> nrows = 1, ncols = 1, px = (\<lambda>i j. 1/2) \<rparr>
                       \<lparr> nrows = 1, ncols = 1, px = (\<lambda>i j. 1) \<rparr> = Inr out
            \<and> px out 0 0 = 1/2 * tgc_gain 1)"
  using tgc_gain_strictly_increasing [of 0 1 "\<lparr> nrows = 1, ncols = 1, px = (\<lambda>i j. 1) \<rparr>"
      "\<lparr> nrows = 1, ncols = 1, px = (\<lambda>i j. 1/2) \<rparr>" 0 0]
  by auto

section \<open>Parameters in effect when generation starts\<close>

lemma bindE_Inr_iff: "bindE m f = Inr y \<longleftrightarrow> (\<exists>x. m = Inr x \<and> f x = Inr y)"
  by (cases m) (simp_all add: bindE_def)

lemma bindE_Inr [simp]: "bindE (Inr x) f = f x"
  by (simp add: bindE_def)

lemma bindE_Inl [simp]: "bindE (Inl e) f = Inl e"
  by (simp add: bindE_def)

lemma main_jpeg_args:
  assumes "main_jpeg int_of argv = Inr a"
  shows "g_width a = 640 \<and> g_height a = 480
       \<and> (if length argv > 3 then \<exists>q. int_of (argv ! 3) = Some q \<and> g_quality a = max 1 (min 100 q)
          else g_quality a = 85)"
proof (cases "length argv > 3")
  case True
  with assms obtain n q where "py_int_arg int_of (argv ! 3) = Inr q" and
    "a = \<lparr> g_output_dir = argv ! 1, g_num_frames = n, g_quality = max 1 (min 100 q),
           g_width = 640, g_height = 480, g_frame_rate = 30 \<rparr>"
    unfolding main_jpeg_def Let_def bindE_Inr_iff by auto
  with True show ?thesis by (auto simp: py_int_arg_def split: option.splits)
next
  case False
  with assms obtain n where
    "a = \<lparr> g_output_dir = (if length argv > 1 then argv ! 1 else ''./output''),
           g_num_frames = n, g_quality = max 1 (min 100 85),
           g_width = 640, g_height = 480, g_frame_rate = 30 \<rparr>"
    unfolding main_jpeg_def Let_def bindE_Inr_iff by auto
  with False show ?thesis by simp
qed

lemma main_realistic_args:
  assumes "main_realistic int_of argv = Inr a"
  shows "g_width a = 640 \<and> g_height a = 480
       \<and> (if length argv > 3 then \<exists>q. int_of (argv ! 3) = Some q \<and> g_quality a = max 1 (min 100 q)
          else g_quality a = 90)"
proof (cases "length argv > 3")
  case True
  with assms obtain n q where "py_int_arg int_of (argv ! 3) = Inr q" and
    "a = \<lparr> g_output_dir = argv ! 1, g_num_frames = n, g_quality = max 1 (min 100 q),
           g_width = 640, g_height = 480, g_frame_rate = 30 \<rparr>"
    unfolding main_realistic_def Let_def bindE_Inr_iff by auto
  with True show ?thesis by (auto simp: py_int_arg_def split: option.splits)
next
  case False
  with assms obtain n where
    "a = \<lparr> g_output_dir = (if length argv > 1 then argv ! 1 else ''./output''),
           g_num_frames = n, g_quality = max 1 (min 100 90),
           g_width = 640, g_height = 480, g_frame_rate = 30 \<rparr>"
    unfolding main_realistic_def Let_def bindE_Inr_iff by auto
  with False show ?thesis by simp
qed

lemma main_starts_with_clamped_quality:
  assumes "length argv = 4" and "int_of (argv ! 2) = Some n" and "int_of (argv ! 3) = Some q"
  shows "main_jpeg int_of argv =
           Inr \<lparr> g_output_dir = argv ! 1, g_num_frames = n, g_quality = max 1 (min 100 q),
                 g_width = 640, g_height = 480, g_frame_rate = 30 \<rparr>"
    and "main_realistic int_of argv =
           Inr \<lparr> g_output_dir = argv ! 1, g_num_frames = n, g_quality = max 1 (min 100 q),
                 g_width = 640, g_height = 480, g_frame_rate = 30 \<rparr>"
  using assms by (simp_all add: main_jpeg_def main_realistic_def py_int_arg_def)

text \<open>
  Claim C4 as stated fails: a quality of 150 is not rejected. With the arguments
  \<open>out 60 150\<close> the JPEG script starts the generation, with quality 100.
\<close>

theorem main_accepts_quality_150:
  "main_jpeg (\<lambda>s. if s = ''60'' then Some 60 else if s = ''150'' then Some 150 else None)
     [''generate_echo_dicom_jpeg.py'', ''out'', ''60'', ''150'']
   = Inr \<lparr> g_output_dir = ''out'', g_num_frames = 60, g_quality = 100,
           g_width = 640, g_height = 480, g_frame_rate = 30 \<rparr>"
  by (simp add: main_jpeg_def py_int_arg_def)

lemma main_starts:
  assumes "length argv \<le> 2 \<or> int_of (argv ! 2) \<noteq> None"
    and "length argv \<le> 3 \<or> int_of (argv ! 3) \<noteq> None"
  shows "\<exists>a b. main_jpeg int_of argv = Inr a \<and> main_realistic int_of argv = Inr b"
  using assms
  by (auto simp: main_jpeg_def main_realistic_def py_int_arg_def Let_def)

text \<open>
  Claim C4, amended. A compression quality outside 1..100 is clamped into 1..100 before
  generation begins, not rejected: whenever the frame count and quality arguments that
  are present are integers, both scripts start the generation, the quality in effect
  is the clamped argument (or the default 85 or 90) and lies in 1..100, the width and
  height are the fixed positive constants 640 and 480, and the sector angles are the
  fixed constants 75 and 72 degrees, below 180.
\<close>

theorem generation_starts_with_valid_parameters:
  assumes "length argv \<le> 2 \<or> int_of (argv ! 2) \<noteq> None"
    and "length argv \<le> 3 \<or> int_of (argv ! 3) \<noteq> None"
  shows "\<exists>a b. main_jpeg int_of argv = Inr a \<and> main_realistic int_of argv = Inr b
       \<and> 1 \<le> g_quality a \<and> g_quality a \<le> 100 \<and> 1 \<le> g_quality b \<and> g_quality b \<le> 100
       \<and> (if length argv > 3
          then \<exists>q. int_of (argv ! 3) = Some q \<and> g_quality a = max 1 (min 100 q)
                    \<and> g_quality b = max 1 (min 100 q)
          else g_quality a = 85 \<and> g_quality b = 90)
       \<and> g_width a = 640 \<and> g_height a = 480 \<and> g_width b = 640 \<and> g_height b = 480
       \<and> echo_frame_angle_deg < 180 \<and> realistic_frame_angle_deg < 180"
proof -
  from main_starts [OF assms] obtain a b where
    a: "main_jpeg int_of argv = Inr a" and b: "main_realistic int_of argv = Inr b" by blast
  note ja = main_jpeg_args [OF a] and rb = main_realistic_args [OF b]
  have "1 \<le> g_quality a \<and> g_quality a \<le> 100"
    using ja by (auto split: if_splits)
  moreover have "1 \<le> g_quality b \<and> g_quality b \<le> 100"
    using rb by (auto split: if_splits)
  moreover have "if length argv > 3
          then \<exists>q. int_of (argv ! 3) = Some q \<and> g_quality a = max 1 (min 100 q)
                    \<and> g_quality b = max 1 (min 100 q)
          else g_quality a = 85 \<and> g_quality b = 90"
    using ja rb by (auto split: if_splits)
  ultimately show ?thesis
    using a b ja rb by (simp add: echo_frame_angle_deg_def realistic_frame_angle_deg_def)
qed

theorem generation_starts_with_valid_parameters_witness:
  "(length [''prog'', ''out'', ''60'', ''0''] \<le> 2
      \<or> (\<lambda>s. if s = ''60'' then Some 60 else if s = ''0'' then Some (0::int) else None)
           ([''prog'', ''out'', ''60'', ''0''] ! 2) \<noteq> None)
   \<and> (length [''prog'', ''out'', ''60'', ''0''] \<le> 3
      \<or> (\<lambda>s. if s = ''60'' then Some 60 else if s = ''0'' then Some (0::int) else None)
           ([''prog'', ''out'', ''60'', ''0''] ! 3) \<noteq> None)
   \<and> main_jpeg (\<lambda>s. if s = ''60'' then Some 60 else if s = ''0'' then Some 0 else None)
       [''prog'', ''out'', ''60'', ''0'']
     = Inr \<lparr> g_output_dir = ''out'', g_num_frames = 60, g_quality = 1,
             g_width = 640, g_height = 480, g_frame_rate = 30 \<rparr>
   \<and> main_realistic (\<lambda>s. if s = ''60'' then Some 60 else if s = ''0'' then Some 0 else None)
       [''prog'', ''out'', ''60'', ''0'']
     = Inr \<lparr> g_output_dir = ''out'', g_num_frames = 60, g_quality = 1,
             g_width = 640, g_height = 480, g_frame_rate = 30 \<rparr>
   \<and> echo_frame_angle_deg < 180 \<and> realistic_frame_angle_deg < 180"
  using generation_starts_with_valid_parameters
    [of "[''prog'', ''out'', ''60'', ''0'']"
        "\<lambda>s. if s = ''60'' then Some 60 else if s = ''0'' then Some 0 else None"]
  by (simp add: main_jpeg_def main_realistic_def py_int_arg_def)

section \<open>Layout of the uncompressed pixel data\<close>

lemma length_tobytes2: "length (tobytes2 a) = nrows a * ncols a"
  by (simp add: tobytes2_def length_concat comp_def sum_list_triv)

lemma length_concat_frames:
  assumes "list_all (\<lambda>f. nrows f = rows \<and> ncols f = cols) frames"
  shows "length (concat (map tobytes2 frames)) = length frames * rows * cols"
  using assms by (induction frames) (simp_all add: length_tobytes2 algebra_simps)

lemma tobytes_stack:
  assumes "list_all (\<lambda>f. nrows f = rows \<and> ncols f = cols) frames"
  shows "tobytes \<lparr> nframes = length frames, frame_rows = rows, frame_cols = cols,
                   vox = (\<lambda>k. px (frames ! k)) \<rparr> = concat (map tobytes2 frames)"
proof -
  have "map (\<lambda>k. concat (map (\<lambda>i. map (\<lambda>j. px (frames ! k) i j) [0..<cols]) [0..<rows]))
            [0..<length frames]
        = map (\<lambda>k. tobytes2 (frames ! k)) [0..<length frames]"
    using assms by (intro map_cong refl) (simp add: tobytes2_def list_all_length)
  also have "\<dots> = map tobytes2 frames"
    by (rule nth_equalityI) simp_all
  finally show ?thesis by (simp add: tobytes_def)
qed

lemma nth_concat_uniform:
  assumes "list_all (\<lambda>xs. length xs = n) xss" and "k < length xss" and "i < n"
  shows "concat xss ! (k * n + i) = xss ! k ! i"
  using assms
proof (induction xss arbitrary: k)
  case Nil
  then show ?case by simp
next
  case (Cons xs xss)
  show ?case
  proof (cases k)
    case 0
    with Cons.prems show ?thesis by (simp add: nth_append)
  next
    case (Suc k')
    with Cons.prems have "concat xss ! (k' * n + i) = xss ! k' ! i"
      by (intro Cons.IH) simp_all
    with Suc Cons.prems show ?thesis by (simp add: nth_append add.assoc)
  qed
qed

lemma tobytes2_nth:
  assumes "i < nrows a" and "j < ncols a"
  shows "tobytes2 a ! (i * ncols a + j) = px a i j"
proof -
  let ?rows = "map (\<lambda>i. map (\<lambda>j. px a i j) [0..<ncols a]) [0..<nrows a]"
  have "concat ?rows ! (i * ncols a + j) = ?rows ! i ! j"
    using assms by (intro nth_concat_uniform) (simp_all add: list_all_iff)
  with assms show ?thesis by (simp add: tobytes2_def)
qed

lemma concat_frames_nth:
  assumes "list_all (\<lambda>f. nrows f = rows \<and> ncols f = cols) frames"
    and "k < length frames" and "i < rows" and "j < cols"
  shows "concat (map tobytes2 frames) ! (k * (rows * cols) + (i * cols + j)) = px (frames ! k) i j"
proof -
  have sz: "nrows (frames ! k) = rows" "ncols (frames ! k) = cols"
    using assms(1,2) by (simp_all add: list_all_length)
  have "i * cols + j < rows * cols"
  proof -
    have "i * cols + j < i * cols + cols" using assms(4) by simp
    also have "\<dots> = (i + 1) * cols" by simp
    also have "\<dots> \<le> rows * cols" using assms(3) by (intro mult_le_mono1) simp
    finally show ?thesis .
  qed
  moreover have "list_all (\<lambda>xs. length xs = rows * cols) (map tobytes2 frames)"
    using assms(1) by (simp add: list_all_iff length_tobytes2)
  ultimately have "concat (map tobytes2 frames) ! (k * (rows * cols) + (i * cols + j))
        = map tobytes2 frames ! k ! (i * cols + j)"
    using assms(2) by (intro nth_concat_uniform) simp_all
  also have "\<dots> = px (frames ! k) i j"
    using assms(2-4) sz tobytes2_nth [of i "frames ! k" j] by simp
  finally show ?thesis .
qed

lemma stack_same_shape:
  assumes "frames \<noteq> []" and "list_all (\<lambda>f. nrows f = rows \<and> ncols f = cols) frames"
  shows "np_stack frames = Inr \<lparr> nframes = length frames, frame_rows = rows,
              frame_cols = cols, vox = (\<lambda>k. px (frames ! k)) \<rparr>"
proof -
  from assms obtain f fs where fr: "frames = f # fs" by (cases frames) auto
  with assms(2) have hd: "nrows (hd frames) = rows" "ncols (hd frames) = cols" by simp_all
  have "list_all (\<lambda>a. nrows a = nrows (hd frames) \<and> ncols a = ncols (hd frames)) frames"
    using assms(2) hd by simp
  with assms(1) hd show ?thesis by (simp add: np_stack_def)
qed

text \<open>
  Claim C2. For a non-empty list of 8-bit frames of one shape \<open>rows \<times> cols\<close>, the
  dataset built without a compressor holds as pixel data exactly the concatenation, in
  frame order, of the row-major bytes of each frame: the byte of pixel \<open>(i, j)\<close> of frame
  \<open>k\<close> is at offset \<open>k\<sqdot>rows\<sqdot>cols + i\<sqdot>cols + j\<close>, and the length is
  \<open>NumberOfFrames \<times> Rows \<times> Columns \<times> SamplesPerPixel\<close>.
\<close>

theorem uncompressed_pixel_data:
  assumes "frames \<noteq> []" and "list_all (\<lambda>f. nrows f = rows \<and> ncols f = cols) frames"
  shows "\<exists>ds ds2. multiframe_dataset frames = Inr ds \<and> multiframe_dataset_v2 frames = Inr ds2
           \<and> ds2 = ds
           \<and> PixelData ds = concat (map tobytes2 frames)
           \<and> NumberOfFrames ds = length frames \<and> Rows ds = rows \<and> Columns ds = cols
           \<and> SamplesPerPixel ds = 1
           \<and> length (PixelData ds)
               = NumberOfFrames ds * Rows ds * Columns ds * SamplesPerPixel ds
           \<and> (\<forall>k i j. k < length frames \<longrightarrow> i < rows \<longrightarrow> j < cols \<longrightarrow>
                 PixelData ds ! (k * (rows * cols) + (i * cols + j)) = px (frames ! k) i j)"
  using tobytes_stack [OF assms(2)] length_concat_frames [OF assms(2)]
    concat_frames_nth [OF assms(2)] stack_same_shape [OF assms]
  by (simp add: multiframe_dataset_def multiframe_dataset_v2_def create_dicom_dataset_def
      create_dicom_dataset_v2_def)

theorem uncompressed_pixel_data_witness:
  "[\<lparr> nrows = 1, ncols = 2, px = (\<lambda>i j. if j = 0 then 10 else 20) \<rparr>,
    \<lparr> nrows = 1, ncols = 2, px = (\<lambda>i j. if j = 0 then 30 else (40::byte)) \<rparr>] \<noteq> []
   \<and> list_all (\<lambda>f. nrows f = 1 \<and> ncols f = 2)
       [\<lparr> nrows = 1, ncols = 2, px = (\<lambda>i j. if j = 0 then 10 else 20) \<rparr>,
        \<lparr> nrows = 1, ncols = 2, px = (\<lambda>i j. if j = 0 then 30 else (40::byte)) \<rparr>]
   \<and> (\<exists>ds. multiframe_dataset
              [\<lparr> nrows = 1, ncols = 2, px = (\<lambda>i j. if j = 0 then 10 else 20) \<rparr>,
               \<lparr> nrows = 1, ncols = 2, px = (\<lambda>i j. if j = 0 then 30 else (40::byte)) \<rparr>] = Inr ds
          \<and> PixelData ds = [10, 20, 30, 40] \<and> length (PixelData ds) = 2 * 1 * 2 * 1)"
  using uncompressed_pixel_data
    [of "[\<lparr> nrows = 1, ncols = 2, px = (\<lambda>i j. if j = 0 then 10 else 20) \<rparr>,
          \<lparr> nrows = 1, ncols = 2, px = (\<lambda>i j. if j = 0 then 30 else (40::byte)) \<rparr>]" 1 2]
  by (auto simp: tobytes2_def upt_rec)

section \<open>Round trip of the encapsulation\<close>

lemma le32_decode_le32: "n < 2 ^ 32 \<Longrightarrow> le32_decode (le32 n) = n"
proof -
  assume n: "n < 2 ^ 32"
  have a: "n = n mod 256 + 256 * (n div 256)" by simp
  have "n div 256 div 256 = n div 65536" by (simp add: div_mult2_eq [symmetric])
  then have b: "n div 256 = n div 256 mod 256 + 256 * (n div 65536)"
    using mod_mult_div_eq [of "n div 256" 256] by simp
  have "n div 65536 div 256 = n div 16777216" by (simp add: div_mult2_eq [symmetric])
  then have c: "n div 65536 = n div 65536 mod 256 + 256 * (n div 16777216)"
    using mod_mult_div_eq [of "n div 65536" 256] by simp
  from n have d: "n div 16777216 < 256" by simp
  have "n mod 256 + (256 * (n div 256 mod 256) +
     (65536 * (n div 65536 mod 256) + 16777216 * (n div 16777216))) = n"
    using a b c by linarith
  with n d show ?thesis
    by (simp add: le32_def le32_decode_def unat_of_nat)
qed

lemma length_le32 [simp]: "length (le32 n) = 4"
  by (simp add: le32_def)

lemma length_item_tag [simp]: "length item_tag = 4"
  by (simp add: item_tag_def)

lemma length_seq_delim_tag [simp]: "length seq_delim_tag = 4"
  by (simp add: seq_delim_tag_def)

lemma tags_differ: "item_tag \<noteq> seq_delim_tag"
  by (simp add: item_tag_def seq_delim_tag_def)

lemma read_fragments_delimiter: "read_fragments sequence_delimiter = Some []"
proof -
  have z: "le32_decode (le32 0) = 0" by (rule le32_decode_le32) simp
  show ?thesis
    unfolding sequence_delimiter_def
    by (subst read_fragments.simps) (simp add: z Let_def)
qed

lemma read_fragments_item:
  assumes "length p < 2 ^ 32"
  shows "read_fragments (item_tag @ le32 (length p) @ p @ rest)
       = map_option (\<lambda>fs. p # fs) (read_fragments rest)"
proof -
  have d: "le32_decode (le32 (length p)) = length p"
    using assms by (rule le32_decode_le32)
  show ?thesis
    by (subst read_fragments.simps) (simp add: tags_differ d)
qed

lemma read_fragments_items:
  assumes "list_all (\<lambda>f. length (pad_even f) < 2 ^ 32) frames"
  shows "read_fragments (concat (map fragment_item frames) @ sequence_delimiter)
       = Some (map pad_even frames)"
  using assms
proof (induction frames)
  case Nil
  then show ?case by (simp add: read_fragments_delimiter)
next
  case (Cons f fs)
  then have len: "length (pad_even f) < 2 ^ 32"
    and IH: "read_fragments (concat (map fragment_item fs) @ sequence_delimiter)
               = Some (map pad_even fs)"
    by simp_all
  have "read_fragments (concat (map fragment_item (f # fs)) @ sequence_delimiter)
      = read_fragments (item_tag @ le32 (length (pad_even f)) @ pad_even f
          @ (concat (map fragment_item fs) @ sequence_delimiter))"
    by (simp add: fragment_item_def)
  also have "\<dots> = map_option (\<lambda>xs. pad_even f # xs)
                     (read_fragments (concat (map fragment_item fs) @ sequence_delimiter))"
    using len by (rule read_fragments_item)
  finally show ?case using IH by simp
qed

lemma length_fragment_offsets [simp]: "length (fragment_offsets start frames) = length frames"
  by (induction frames arbitrary: start) simp_all

lemma length_offset_bytes:
  "length (concat (map le32 offsets)) = 4 * length offsets"
  by (induction offsets) simp_all

lemma decapsulate_encapsulate:
  assumes "4 * length frames < 2 ^ 32"
    and "list_all (\<lambda>f. length (pad_even f) < 2 ^ 32) frames"
  shows "decapsulate (encapsulate frames) = Some (map pad_even frames)"
proof -
  let ?table = "concat (map le32 (fragment_offsets 0 frames))"
  let ?items = "concat (map fragment_item frames) @ sequence_delimiter"
  have enc: "encapsulate frames = item_tag @ le32 (4 * length frames) @ ?table @ ?items"
    by (simp add: encapsulate_def basic_offset_table_def)
  have tl: "length ?table = 4 * length frames"
    by (simp add: length_offset_bytes)
  have dec: "le32_decode (le32 (4 * length frames)) = 4 * length frames"
    using assms(1) by (rule le32_decode_le32)
  have "decapsulate (encapsulate frames) = read_fragments ?items"
    unfolding enc decapsulate_def using tl dec by simp
  with read_fragments_items [OF assms(2)] show ?thesis by simp
qed

lemma encapsulate_ends_with_delimiter:
  "\<exists>body. encapsulate frames = body @ seq_delim_tag @ [0, 0, 0, 0]"
  by (simp add: encapsulate_def sequence_delimiter_def le32_def)

lemma pad_even_list_all2:
  "list_all2 (\<lambda>f g. g = (if odd (length f) then f @ [0] else f)) frames (map pad_even frames)"
  by (induction frames) (simp_all add: pad_even_def)

text \<open>
  Claim C1. For every ordered list of payloads whose count and padded lengths fit the
  4-byte length fields, encapsulating and then decapsulating by the documented layout
  recovers as many fragments as payloads, in the original order, each equal to its
  payload with a single trailing zero byte appended when the payload length is odd, and
  the stream ends with the zero-length sequence-delimiter item.
\<close>

theorem encapsulate_roundtrip:
  assumes "4 * length frames < 2 ^ 32"
    and "list_all (\<lambda>f. length (pad_even f) < 2 ^ 32) frames"
  shows "\<exists>fragments body.
           decapsulate (PixelData (create_jpeg_dicom_dataset frames rows cols)) = Some fragments
           \<and> PixelData (create_realistic_dicom_dataset frames rows cols color)
               = PixelData (create_jpeg_dicom_dataset frames rows cols)
           \<and> length fragments = length frames
           \<and> NumberOfFrames (create_jpeg_dicom_dataset frames rows cols) = length fragments
           \<and> list_all2 (\<lambda>f g. g = (if odd (length f) then f @ [0] else f)) frames fragments
           \<and> PixelData (create_jpeg_dicom_dataset frames rows cols)
               = body @ seq_delim_tag @ [0, 0, 0, 0]"
  using decapsulate_encapsulate [OF assms] pad_even_list_all2 [of frames]
    encapsulate_ends_with_delimiter [of frames]
  by (auto simp: create_jpeg_dicom_dataset_def create_realistic_dicom_dataset_def)

theorem encapsulate_roundtrip_witness:
  "4 * length [[1, 2, 3], [4, 5 :: byte]] < (2::nat) ^ 32
   \<and> list_all (\<lambda>f. length (pad_even f) < 2 ^ 32) [[1, 2, 3], [4, 5 :: byte]]
   \<and> decapsulate (PixelData (create_jpeg_dicom_dataset [[1, 2, 3], [4, 5]] 1 1))
       = Some [[1, 2, 3, 0], [4, 5]]"
  using encapsulate_roundtrip [of "[[1, 2, 3], [4, 5]]" 1 1]
  by (auto simp: pad_even_def list_all2_Cons1)

section \<open>Normalisation of the speckle fields\<close>

lemma set_arr_elems:
  "set (arr_elems a) = {px a i j | i j. i < nrows a \<and> j < ncols a}"
  by (fastforce simp: arr_elems_def)

lemma arr_elems_nonempty: "0 < nrows a * ncols a \<Longrightarrow> set (arr_elems a) \<noteq> {}"
  by (auto simp: set_arr_elems)

lemma minmax_normalize_props:
  assumes "0 < nrows a" and "0 < ncols a"
  shows "\<exists>out. minmax_normalize a = Inr out \<and> nrows out = nrows a \<and> ncols out = ncols a
           \<and> (\<forall>i j. i < nrows a \<longrightarrow> j < ncols a \<longrightarrow> 0 \<le> px out i j \<and> px out i j < 1)
           \<and> (\<exists>i j. i < nrows a \<and> j < ncols a \<and> px out i j = 0)"
proof -
  let ?S = "set (arr_elems a)"
  let ?lo = "Min ?S" and ?hi = "Max ?S"
  let ?out = "arr_map (\<lambda>v. (v - ?lo) / (?hi - ?lo + 1 / 10 ^ 8)) a"
  have ne: "?S \<noteq> {}" using assms by (intro arr_elems_nonempty) simp
  have fin: "finite ?S" by simp
  have run: "minmax_normalize a = Inr ?out"
    using assms by (simp add: minmax_normalize_def np_min_def np_max_def)
  have lohi: "?lo \<le> ?hi" using ne fin by (simp add: Min_le_iff)
  have rng: "0 \<le> px ?out i j \<and> px ?out i j < 1" if "i < nrows a" "j < ncols a" for i j
  proof -
    have mem: "px a i j \<in> ?S" using that by (auto simp: set_arr_elems)
    then have "?lo \<le> px a i j" "px a i j \<le> ?hi" by simp_all
    then show ?thesis by (simp add: arr_map_def)
  qed
  have "?lo \<in> ?S" using ne fin by (rule Min_in[rotated])
  then obtain i j where "i < nrows a" "j < ncols a" "px a i j = ?lo"
    by (auto simp: set_arr_elems)
  then have "\<exists>i j. i < nrows a \<and> j < ncols a \<and> px ?out i j = 0"
    by (auto simp: arr_map_def)
  with run rng show ?thesis by (auto simp: arr_map_def)
qed

lemma realistic_speckle_unfold:
  assumes "0 < width" and "0 < height" and "4 dvd width" and "4 dvd height"
    and "seed_in_range seed"
  shows "\<exists>X g4. generate_realistic_speckle lib width height seed g
                 = bindE (minmax_normalize X) (\<lambda>s. Inr (s, g4))
               \<and> nrows X = height \<and> ncols X = width"
proof -
  have h4: "height div 4 * 4 = height" and w4: "width div 4 * 4 = width"
    using assms(3,4) by simp_all
  have "2 dvd height" "2 dvd width" using assms(3,4) by (auto elim: dvd_trans [rotated])
  then have h2: "height div 2 * 2 = height" and w2: "width div 2 * 2 = width" by simp_all
  have g1: "\<exists>g1. (case seed of None \<Rightarrow> Inr g | Some s \<Rightarrow> np_random_seed lib s) = Inr g1"
    using assms(5) by (cases seed) (simp_all add: seed_in_range_def np_random_seed_def)
  then obtain g1 where g1: "(case seed of None \<Rightarrow> Inr g | Some s \<Rightarrow> np_random_seed lib s) = Inr g1"
    by blast
  have n1: "width \<noteq> Suc 0" "height \<noteq> Suc 0"
    using assms(3,4) by auto
  show ?thesis
    unfolding generate_realistic_speckle_def g1
    using assms(1,2) n1
    apply (simp add: Let_def split_beta np_random_rayleigh_def np_gaussian_filter_def
        arr_slice_def np_repeat2_def arr_map_def arr_zip_def broadcast_dim_def
        linspace_column_def h2 w2 h4 w4)
    apply (intro exI conjI)
      apply (rule refl)
     apply simp_all
    done
qed

lemma minmax_normalize_range:
  assumes "minmax_normalize a = Inr out" and "i < nrows out" and "j < ncols out"
  shows "0 \<le> px out i j \<and> px out i j < 1"
proof -
  from assms(1) have pos: "0 < nrows a" "0 < ncols a"
    by (auto simp: minmax_normalize_def np_min_def bindE_Inr_iff split: if_splits)
  from minmax_normalize_props [OF pos] assms show ?thesis by auto
qed

lemma realistic_speckle_is_normalized:
  assumes "generate_realistic_speckle lib width height seed g = Inr (out, g')"
  shows "\<exists>X. minmax_normalize X = Inr out"
  using assms
  by (auto simp: generate_realistic_speckle_def Let_def split_beta bindE_Inr_iff)

lemma realistic_speckle_below_one:
  assumes "generate_realistic_speckle lib width height seed g = Inr (out, g')"
    and "i < nrows out" and "j < ncols out"
  shows "0 \<le> px out i j \<and> px out i j < 1"
  using realistic_speckle_is_normalized [OF assms(1)] minmax_normalize_range assms(2,3)
  by blast

lemma realistic_speckle_normalized:
  assumes "0 < width" and "0 < height" and "4 dvd width" and "4 dvd height"
    and "seed_in_range seed"
  shows "\<exists>out g'. generate_realistic_speckle lib width height seed g = Inr (out, g')
           \<and> nrows out = height \<and> ncols out = width
           \<and> (\<forall>i j. i < height \<longrightarrow> j < width \<longrightarrow> 0 \<le> px out i j \<and> px out i j < 1)
           \<and> (\<exists>i j. i < height \<and> j < width \<and> px out i j = 0)"
proof -
  from realistic_speckle_unfold [OF assms, of lib g] obtain X g4 where
    run: "generate_realistic_speckle lib width height seed g
            = bindE (minmax_normalize X) (\<lambda>s. Inr (s, g4))"
    and sh: "nrows X = height" "ncols X = width" by blast
  from minmax_normalize_props [of X] sh assms(1,2) obtain out where
    "minmax_normalize X = Inr out" "nrows out = height" "ncols out = width"
    "\<forall>i j. i < height \<longrightarrow> j < width \<longrightarrow> 0 \<le> px out i j \<and> px out i j < 1"
    "\<exists>i j. i < height \<and> j < width \<and> px out i j = 0"
    by auto
  with run show ?thesis by auto
qed

lemma max_scale_props:
  assumes "0 < nrows a" and "0 < ncols a"
    and pos: "\<forall>i j. i < nrows a \<longrightarrow> j < ncols a \<longrightarrow> 0 < px a i j"
    and "0 < intensity"
  shows "\<exists>m. np_max a = Inr m \<and> 0 < m
           \<and> (\<forall>i j. i < nrows a \<longrightarrow> j < ncols a \<longrightarrow>
                 0 < px a i j / m * intensity \<and> px a i j / m * intensity \<le> intensity)
           \<and> (\<exists>i j. i < nrows a \<and> j < ncols a \<and> px a i j / m * intensity = intensity)"
proof -
  let ?S = "set (arr_elems a)"
  let ?m = "Max ?S"
  have ne: "?S \<noteq> {}" using assms(1,2) by (intro arr_elems_nonempty) simp
  have run: "np_max a = Inr ?m" using assms(1,2) by (simp add: np_max_def)
  have "?m \<in> ?S" using ne by (intro Max_in) simp_all
  then obtain i0 j0 where at: "i0 < nrows a" "j0 < ncols a" "px a i0 j0 = ?m"
    by (auto simp: set_arr_elems)
  with pos have mpos: "0 < ?m" by metis
  have rng: "0 < px a i j / ?m * intensity \<and> px a i j / ?m * intensity \<le> intensity"
    if "i < nrows a" "j < ncols a" for i j
  proof -
    have "px a i j \<in> ?S" using that by (auto simp: set_arr_elems)
    then have le: "px a i j \<le> ?m" by simp
    have p: "0 < px a i j" using pos that by simp
    have "px a i j / ?m \<le> 1" using le mpos by simp
    then have "px a i j / ?m * intensity \<le> 1 * intensity"
      using assms(4) by (intro mult_right_mono) simp_all
    moreover have "0 < px a i j / ?m * intensity" using p mpos assms(4) by simp
    ultimately show ?thesis by simp
  qed
  have "px a i0 j0 / ?m * intensity = intensity" using at(3) mpos by simp
  with at(1,2) have "\<exists>i j. i < nrows a \<and> j < ncols a \<and> px a i j / ?m * intensity = intensity"
    by blast
  with run mpos rng show ?thesis by blast
qed

lemma speckle_layers_result:
  assumes "0 < width" and "0 < height" and "8 dvd width" and "8 dvd height"
    and "draws_positive lib"
  shows "\<exists>N g4. speckle_layers lib width height [1, 2, 4, 8] (np_zeros height width) g
                 = Inr (N, g4)
               \<and> nrows N = height \<and> ncols N = width
               \<and> (\<forall>i j. i < height \<longrightarrow> j < width \<longrightarrow> 0 < px N i j)"
proof -
  have h8: "height div 8 * 8 = height" and w8: "width div 8 * 8 = width"
    using assms(3,4) by simp_all
  have "4 dvd height" "4 dvd width" using assms(3,4) by (auto elim: dvd_trans [rotated])
  then have h4: "height div 4 * 4 = height" and w4: "width div 4 * 4 = width" by simp_all
  have "2 dvd height" "2 dvd width" using assms(3,4) by (auto elim: dvd_trans [rotated])
  then have h2: "height div 2 * 2 = height" and w2: "width div 2 * 2 = width" by simp_all
  have n1: "width \<noteq> Suc 0" "height \<noteq> Suc 0"
    using assms(3,4) by auto
  have dp: "\<And>scale h w g i j. 0 < fst (rayleigh lib scale h w g) i j"
    using assms(5) by (simp add: draws_positive_def)
  show ?thesis
    using assms(1,2) n1
    apply (simp add: Let_def split_beta np_random_rayleigh_def np_zeros_def arr_iadd_def
        arr_slice_def np_repeat2_def arr_map_def arr_zip_def broadcast_dim_def bpx_def
        h2 w2 h4 w4 h8 w8)
    apply (intro allI impI add_pos_pos mult_pos_pos divide_pos_pos dp)
    apply simp_all
    done
qed

lemma speckle_noise_scaled:
  assumes "0 < width" and "0 < height" and "8 dvd width" and "8 dvd height"
    and "draws_positive lib" and "0 < intensity"
  shows "\<exists>out g'. generate_speckle_noise lib width height intensity g = Inr (out, g')
           \<and> nrows out = height \<and> ncols out = width
           \<and> (\<forall>i j. i < height \<longrightarrow> j < width \<longrightarrow> 0 < px out i j \<and> px out i j \<le> intensity)
           \<and> (\<exists>i j. i < height \<and> j < width \<and> px out i j = intensity)"
proof -
  from speckle_layers_result [OF assms(1-5), of g] obtain N g4 where
    run: "speckle_layers lib width height [1, 2, 4, 8] (np_zeros height width) g = Inr (N, g4)"
    and sh: "nrows N = height" "ncols N = width"
    and pos: "\<forall>i j. i < height \<longrightarrow> j < width \<longrightarrow> 0 < px N i j" by blast
  from max_scale_props [of N intensity] sh pos assms(1,2,6) obtain m where
    m: "np_max N = Inr m"
    and rng: "\<forall>i j. i < height \<longrightarrow> j < width \<longrightarrow>
                 0 < px N i j / m * intensity \<and> px N i j / m * intensity \<le> intensity"
    and top: "\<exists>i j. i < height \<and> j < width \<and> px N i j / m * intensity = intensity"
    by auto
  have "generate_speckle_noise lib width height intensity g
          = Inr (arr_map (\<lambda>v. v / m * intensity) N, g4)"
    unfolding generate_speckle_noise_def Let_def run by (simp add: m)
  with sh rng top show ?thesis by (simp add: arr_map_def)
qed

lemma fixture_draws_positive: "draws_positive fixture_lib"
  by (simp add: draws_positive_def fixture_lib_def)

lemma speckle_noise_is_scaled:
  assumes "generate_speckle_noise lib width height intensity g = Inr (out, g')"
  shows "\<exists>N m. np_max N = Inr m \<and> out = arr_map (\<lambda>v. v / m * intensity) N"
  using assms
  by (auto simp: generate_speckle_noise_def Let_def bindE_Inr_iff simp del: speckle_layers.simps)




section \<open>The Doppler overlay\<close>

lemma np_clip_unit: "0 \<le> np_clip x 0 1 \<and> np_clip x 0 1 \<le> 1"
  by (simp add: np_clip_def)

lemma bpx_mk: "i < h \<Longrightarrow> j < w \<Longrightarrow> bpx \<lparr> nrows = h, ncols = w, px = f \<rparr> i j = f i j"
  by (auto simp: bpx_def)

lemma doppler_flow_field_shape [simp]:
  "nrows (doppler_flow_field a s p height width) = height"
  "ncols (doppler_flow_field a s p height width) = width"
  by (simp_all add: doppler_flow_field_def assign_channel_def Let_def)

lemma doppler_flow_field_nonzero:
  assumes "px (doppler_flow_field a s p height width) i j c \<noteq> 0"
  shows "1 - s > 0.3
       \<and> (mv_mask (v_position (get_mitral_valve a s)) i j
          \<or> tv_mask (v_position (get_tricuspid_valve a s)) i j)"
  using assms
  by (auto simp: doppler_flow_field_def assign_channel_def fast_flow_def Let_def
      split: if_splits)

lemma doppler_flow_result:
  "generate_color_doppler_flow lib width height a s p g =
     Inr (\<lparr> nrows = height, ncols = width,
            px = (\<lambda>i j c. np_clip (bpx (doppler_flow_field a s p height width) i j c
                    + bpx \<lparr> nrows = height, ncols = width,
                            px = fst (normal lib 0 0.05 height width g) \<rparr> i j c) 0 1) \<rparr>,
          snd (normal lib 0 0.05 height width g))"
  by (simp add: generate_color_doppler_flow_def Let_def split_beta np_random_normal_def
      arr_zip_def broadcast_dim_def arr_map_def)

text \<open>
  Claim C5 as stated fails. At systole factor 1 the diastole factor is 0 and does not
  exceed the threshold 0.3, yet with a noise draw of 0.03 the returned overlay has the
  value 0.03 at pixel \<open>(0, 0)\<close>, channel 0.
\<close>

theorem doppler_overlay_nonzero_without_flow:
  "\<not> (1 - (1::real) > 0.3)
   \<and> (\<exists>out g'. generate_color_doppler_flow fixture_lib 640 480 (CardiacAnatomy_init 640 480)
                   1 (1/4) () = Inr (out, g')
         \<and> px out 0 0 0 = 3 / 100)"
  by (simp add: doppler_flow_result bpx_def doppler_flow_field_def Let_def fixture_lib_def
      np_clip_def)

text \<open>
  Claim C5, amended. The overlay returned for a frame is the flow image plus the noise
  draw, clipped to \<open>[0,1]\<close> per channel, so every returned channel value lies in
  \<open>[0,1]\<close>. The flow image before the noise is nonzero only at pixels inside the mitral
  or tricuspid region and only when the diastole factor \<open>1 - systole_factor\<close> exceeds
  0.3; elsewhere the returned value is the clipped noise alone.
\<close>

theorem doppler_overlay_is_clipped_flow_plus_noise:
  assumes "i < height" and "j < width"
  shows "\<exists>out g'. generate_color_doppler_flow lib width height anatomy s p g = Inr (out, g')
           \<and> nrows out = height \<and> ncols out = width
           \<and> 0 \<le> px out i j c \<and> px out i j c \<le> 1
           \<and> px out i j c = np_clip (px (doppler_flow_field anatomy s p height width) i j c
                                      + fst (normal lib 0 0.05 height width g) i j c) 0 1
           \<and> (px (doppler_flow_field anatomy s p height width) i j c \<noteq> 0 \<longrightarrow>
                1 - s > 0.3
                \<and> (mv_mask (v_position (get_mitral_valve anatomy s)) i j
                   \<or> tv_mask (v_position (get_tricuspid_valve anatomy s)) i j))
           \<and> (\<not> 1 - s > 0.3 \<longrightarrow>
                px out i j c = np_clip (fst (normal lib 0 0.05 height width g) i j c) 0 1)"
proof -
  let ?field = "doppler_flow_field anatomy s p height width"
  have b1: "bpx ?field i j = px ?field i j"
    using assms by (intro bpx_inside) simp_all
  have z: "px ?field i j c = 0" if "\<not> 1 - s > 0.3"
    using doppler_flow_field_nonzero [of anatomy s p height width i j c] that by blast
  show ?thesis
    using doppler_flow_field_nonzero [of anatomy s p height width i j c] z
    by (simp add: doppler_flow_result b1 bpx_mk assms np_clip_unit)
qed

theorem doppler_overlay_is_clipped_flow_plus_noise_witness:
  "(0::nat) < 480 \<and> (0::nat) < 640
   \<and> (\<exists>out g'. generate_color_doppler_flow fixture_lib 640 480 (CardiacAnatomy_init 640 480)
                   0 (1/4) () = Inr (out, g')
         \<and> nrows out = 480 \<and> ncols out = 640
         \<and> 0 \<le> px out 0 0 2 \<and> px out 0 0 2 \<le> 1)"
  using doppler_overlay_is_clipped_flow_plus_noise
    [of 0 480 0 640 fixture_lib "CardiacAnatomy_init 640 480" 0 "1/4" "()" 2]
  by auto

section \<open>Frame composition returns 8-bit samples\<close>

lemma arr_zip_ok:
  assumes "nrows b = nrows a" and "ncols b = ncols a"
  shows "\<exists>r. arr_zip f a b = Inr r \<and> nrows r = nrows a \<and> ncols r = ncols a"
  using arr_zip_same_shape [OF assms, of f] by simp

lemma py_int_unit_255:
  assumes "0 \<le> v" and "v \<le> 1"
  shows "0 \<le> py_int (v * 255) \<and> py_int (v * 255) \<le> 255"
proof -
  have "0 \<le> v * 255" using assms(1) by simp
  moreover have "v * 255 \<le> 255" using assms(2) by simp
  then have "\<lfloor>v * 255\<rfloor> \<le> 255" by (simp add: floor_le_iff)
  ultimately show ?thesis by (simp add: py_int_def)
qed

lemma astype_uint8_unit:
  assumes "0 \<le> v" and "v \<le> 1"
  shows "uint (astype_uint8 (v * 255)) = \<lfloor>v * 255\<rfloor> \<and> uint (astype_uint8 (v * 255)) \<le> 255"
proof -
  from py_int_unit_255 [OF assms] have r: "0 \<le> py_int (v * 255)" "py_int (v * 255) < 256"
    by simp_all
  have "uint (astype_uint8 (v * 255)) = py_int (v * 255) mod 256"
    by (simp add: astype_uint8_def uint_word_of_int)
  also have "\<dots> = py_int (v * 255)" using r by simp
  finally have "uint (astype_uint8 (v * 255)) = py_int (v * 255)" .
  moreover have "py_int (v * 255) = \<lfloor>v * 255\<rfloor>" using assms(1) by (simp add: py_int_def)
  ultimately show ?thesis using r by simp
qed

lemma apply_tgc_ok:
  assumes "nrows dm = nrows im" and "ncols dm = ncols im"
  shows "\<exists>r. apply_tgc im dm = Inr r \<and> nrows r = nrows im \<and> ncols r = ncols im"
  unfolding apply_tgc_def Let_def
  by (rule arr_zip_ok) (simp_all add: arr_map_def assms)

lemma lateral_blur_bands_ok:
  assumes "nrows dm = nrows im" and "ncols dm = ncols im"
    and "nrows res = nrows im" and "ncols res = ncols im"
  shows "\<exists>r. lateral_blur_bands lib im dm bands res = Inr r
           \<and> nrows r = nrows im \<and> ncols r = ncols im"
  using assms(3,4)
proof (induction bands arbitrary: res)
  case Nil
  then show ?case by simp
next
  case (Cons d bands)
  let ?m = "arr_map (\<lambda>x. if x \<ge> d \<and> x < d + 0.15 then 1 else (0::real)) dm"
  let ?blurred = "np_gaussian_filter lib im (0, 0.5 + d * 1.5)"
  have ms: "nrows ?m = nrows im" "ncols ?m = ncols im"
    using assms(1,2) by (simp_all add: arr_map_def)
  show ?case
  proof (cases "sum_list (arr_elems ?m) > 0")
    case False
    with Cons.IH [OF Cons.prems] show ?thesis by (simp add: Let_def)
  next
    case True
    from arr_zip_ok [of "arr_map (\<lambda>m. 1 - m) ?m" res "(*)"] ms Cons.prems
    obtain kept where k: "arr_zip (*) res (arr_map (\<lambda>m. 1 - m) ?m) = Inr kept"
      and ks: "nrows kept = nrows im" "ncols kept = ncols im"
      by (auto simp: arr_map_def)
    from arr_zip_ok [of ?m ?blurred "(*)"] ms
    obtain replaced where r: "arr_zip (*) ?blurred ?m = Inr replaced"
      and rs: "nrows replaced = nrows im" "ncols replaced = ncols im"
      by (auto simp: np_gaussian_filter_def)
    from arr_zip_ok [of replaced kept "(+)"] ks rs
    obtain res' where s: "arr_zip (+) kept replaced = Inr res'"
      and ss: "nrows res' = nrows im" "ncols res' = ncols im"
      by auto
    from Cons.IH [OF ss] obtain out where
      "lateral_blur_bands lib im dm bands res' = Inr out"
      "nrows out = nrows im" "ncols out = ncols im" by blast
    with True k r s show ?thesis by (simp add: Let_def)
  qed
qed

lemma apply_lateral_blur_ok:
  assumes "nrows dm = nrows im" and "ncols dm = ncols im"
  shows "\<exists>r. apply_lateral_blur lib im dm = Inr r \<and> nrows r = nrows im \<and> ncols r = ncols im"
  unfolding apply_lateral_blur_def
  by (rule lateral_blur_bands_ok [OF assms]) simp_all

lemma foldl_pil_apply_shape:
  "nrows (foldl (pil_apply lib) img cmds) = nrows img
   \<and> ncols (foldl (pil_apply lib) img cmds) = ncols img"
  by (induction cmds arbitrary: img) (simp_all add: pil_apply_def)

lemma draw_heart_structure_shape [simp]:
  "nrows (draw_heart_structure lib im a s) = nrows im"
  "ncols (draw_heart_structure lib im a s) = ncols im"
  by (simp_all add: draw_heart_structure_def Let_def arr_map_def foldl_pil_apply_shape)

lemma create_sector_geometry_shape [simp]:
  "nrows (sg_distance_map (create_sector_geometry lib width height angle)) = height"
  "ncols (sg_distance_map (create_sector_geometry lib width height angle)) = width"
  "nrows (sg_mask (create_sector_geometry lib width height angle)) = height"
  "ncols (sg_mask (create_sector_geometry lib width height angle)) = width"
  by (simp_all add: create_sector_geometry_def Let_def np_gaussian_filter_def)

lemma compose_gray_ok:
  assumes "nrows heart = h" and "ncols heart = w"
    and "nrows hs = h" and "ncols hs = w"
    and "nrows (sg_distance_map sector) = h" and "ncols (sg_distance_map sector) = w"
    and "nrows (sg_mask sector) = h" and "ncols (sg_mask sector) = w"
  shows "\<exists>im. compose_gray lib sector heart hs = Inr im \<and> nrows im = h \<and> ncols im = w
           \<and> (\<forall>i j. 0 \<le> px im i j \<and> px im i j \<le> 1)"
proof -
  from arr_zip_ok [of "arr_map (\<lambda>v. 0.85 + v * 0.25) hs" heart "(*)"] assms(1-4)
  obtain image1 where 1: "arr_zip (*) heart (arr_map (\<lambda>v. 0.85 + v * 0.25) hs) = Inr image1"
    and s1: "nrows image1 = h" "ncols image1 = w"
    by (auto simp: arr_map_def)
  from apply_tgc_ok [of "sg_distance_map sector" image1] assms(5,6) s1
  obtain image2 where 2: "apply_tgc image1 (sg_distance_map sector) = Inr image2"
    and s2: "nrows image2 = h" "ncols image2 = w" by auto
  from apply_lateral_blur_ok [of "sg_distance_map sector" image2 lib] assms(5,6) s2
  obtain image3 where 3: "apply_lateral_blur lib image2 (sg_distance_map sector) = Inr image3"
    and s3: "nrows image3 = h" "ncols image3 = w" by auto
  from arr_zip_ok [of "sg_mask sector" image3 "(*)"] assms(7,8) s3
  obtain image4 where 4: "arr_zip (*) image3 (sg_mask sector) = Inr image4"
    and s4: "nrows image4 = h" "ncols image4 = w" by auto
  have "compose_gray lib sector heart hs = Inr (arr_map (\<lambda>v. np_clip v 0 1) image4)"
    unfolding compose_gray_def 1 2 3 4 bindE_Inr ..
  then show ?thesis using s4 by (simp add: arr_map_def np_clip_unit)
qed

lemma cycle_of_nonzero:
  "total_frames \<noteq> 0 \<Longrightarrow> cycle_of frame total_frames = Inr (real_of_int frame / real_of_int total_frames)"
  by (simp add: cycle_of_def true_div_def)

lemma realistic_frame_zero_total:
  "generate_realistic_frame lib width height frame 0 include_color speckle_seed g
     = Inl ZeroDivisionError"
  by (simp add: generate_realistic_frame_def cycle_of_def true_div_def Let_def)

lemma seeded_speckle_ignores_state:
  "generate_realistic_speckle lib width height (Some s) g0
     = generate_realistic_speckle lib width height (Some s) g1"
  by (simp add: generate_realistic_speckle_def)

lemma realistic_frame_ignores_state:
  "generate_realistic_frame lib width height frame total_frames include_color (Some s) g0
     = generate_realistic_frame lib width height frame total_frames include_color (Some s) g1"
  unfolding generate_realistic_frame_def Let_def frame_seed_def option.case
    seeded_speckle_ignores_state [of lib width height "s + frame" g0 g1] ..

lemma apply_ultrasound_artifacts_ok:
  assumes "nrows m = nrows im" and "ncols m = ncols im"
  shows "\<exists>r. apply_ultrasound_artifacts im m = Inr r \<and> nrows r = nrows im \<and> ncols r = ncols im
           \<and> (\<forall>i j. 0 \<le> px r i j \<and> px r i j \<le> 1)"
proof -
  let ?tgc = "arr_map tgc_gain_v2 (y_coords (nrows im))"
  have "\<exists>r. arr_zip (*) im ?tgc = Inr r \<and> nrows r = nrows im \<and> ncols r = ncols im"
    by (simp add: arr_zip_def broadcast_dim_def arr_map_def y_coords_def)
  then obtain image1 where 1: "arr_zip (*) im ?tgc = Inr image1"
    and s1: "nrows image1 = nrows im" "ncols image1 = ncols im" by blast
  from arr_zip_ok [of m image1 "(*)"] assms s1
  obtain image2 where 2: "arr_zip (*) image1 m = Inr image2"
    and s2: "nrows image2 = nrows im" "ncols image2 = ncols im" by auto
  have "apply_ultrasound_artifacts im m = Inr (arr_map (\<lambda>v. np_clip (v * 1.2) 0 1) image2)"
    unfolding apply_ultrasound_artifacts_def Let_def 1 bindE_Inr 2 ..
  then show ?thesis using s2 by (simp add: arr_map_def np_clip_unit)
qed

lemma generate_4chamber_frame_ok:
  assumes "total_frames \<noteq> 0"
  shows "\<exists>heart. generate_4chamber_frame lib width height frame total_frames = Inr heart
           \<and> nrows heart = height \<and> ncols heart = width"
  by (simp add: generate_4chamber_frame_def Let_def cycle_of_nonzero [OF assms] arr_map_def
      foldl_pil_apply_shape)

lemma echo_frame_v2_zero_total:
  assumes "0 < width" and "0 < height" and "8 dvd width" and "8 dvd height"
    and "draws_positive lib"
  shows "generate_echo_frame_v2 lib width height frame 0 g = Inl ZeroDivisionError"
proof -
  have "(0::real) < 0.25" by simp
  from speckle_noise_scaled [OF assms this, of g]
  obtain speckle g1 where sp: "generate_speckle_noise lib width height 0.25 g = Inr (speckle, g1)"
    by blast
  have he: "generate_4chamber_frame lib width height frame 0 = Inl ZeroDivisionError"
    by (simp add: generate_4chamber_frame_def Let_def cycle_of_def true_div_def)
  show ?thesis
    unfolding generate_echo_frame_v2_def Let_def sp bindE_Inr prod.case he bindE_Inl ..
qed

lemma realistic_speckle_odd_height:
  "generate_realistic_speckle lib 640 481 None g = Inl ValueError"
  by (simp add: generate_realistic_speckle_def Let_def split_beta np_random_rayleigh_def
      np_gaussian_filter_def arr_slice_def np_repeat2_def arr_map_def arr_zip_def
      broadcast_dim_def)

lemma realistic_frame_odd_height:
  "generate_realistic_frame lib 640 481 0 90 True None g = Inl ValueError"
  unfolding generate_realistic_frame_def Let_def frame_seed_def option.case
    realistic_speckle_odd_height
  by (simp add: cycle_of_def true_div_def)


text \<open>
  The frame functions are their compositions up to the quantisation statement, followed
  by the quantisation.
\<close>

lemma bindE_assoc: "bindE (bindE m f) k = bindE m (\<lambda>x. bindE (f x) k)"
  by (cases m) simp_all

lemma bindE_cong_Inr: "(\<And>x. m = Inr x \<Longrightarrow> f x = k x) \<Longrightarrow> bindE m f = bindE m k"
  by (cases m) simp_all

lemma overlay_doppler_quantizes:
  "overlay_doppler im heart dop =
     bindE (overlay_doppler_clipped im heart dop)
       (\<lambda>image_rgb. Inr (arr_map (\<lambda>p c. astype_uint8 (p c * 255)) image_rgb))"
  by (simp add: overlay_doppler_def overlay_doppler_clipped_def Let_def bindE_assoc)

lemma generate_realistic_frame_quantizes:
  "generate_realistic_frame lib width height frame total_frames include_color seed g =
     bindE (compose_realistic_frame lib width height frame total_frames include_color seed g)
       (\<lambda>(img, g'). Inr (quantize_frame img, g'))"
  unfolding generate_realistic_frame_def compose_realistic_frame_def Let_def bindE_assoc
  apply (rule bindE_cong_Inr)
  apply (rule bindE_cong_Inr)
  apply (clarsimp simp only: prod.case bindE_assoc)
  apply (rule bindE_cong_Inr)
  apply (clarsimp simp only: prod.case bindE_assoc)
  apply (rule bindE_cong_Inr)
  apply (cases include_color)
   apply (simp_all add: overlay_doppler_quantizes bindE_assoc)
  apply (rule bindE_cong_Inr)
  apply (clarsimp simp add: bindE_assoc)
  done

lemma generate_echo_frame_v2_quantizes:
  "generate_echo_frame_v2 lib width height frame total_frames g =
     bindE (compose_echo_frame_v2 lib width height frame total_frames g)
       (\<lambda>(img, g'). Inr (arr_map (\<lambda>v. astype_uint8 (v * 255)) img, g'))"
  unfolding generate_echo_frame_v2_def compose_echo_frame_v2_def Let_def bindE_assoc
  apply (rule bindE_cong_Inr)
  apply (clarsimp simp add: bindE_assoc)
  done

text \<open>
  The boxes of the ellipses. The radii are not negative, so the boxes are ordered from left
  to right; from top to bottom the chambers of \<open>generate_4chamber_frame\<close> have fixed radii
  and are ordered at every size, those of \<open>draw_heart_structure\<close> scale with the frame
  and are ordered from a height of 104.
\<close>

lemma py_int_nonneg: "0 \<le> x \<Longrightarrow> 0 \<le> py_int x"
  by (simp add: py_int_def)

lemma py_int_of_int [simp]: "py_int (real_of_int k) = k"
  by (simp add: py_int_def)

lemma py_int_product_nonneg: "0 \<le> d \<Longrightarrow> 0 \<le> c \<Longrightarrow> 0 \<le> py_int (d * c)"
  by (rule py_int_nonneg) simp

lemma ellipse_top_le_const:
  assumes "a \<le> b" and "real_of_int k \<le> r"
  shows "py_int a + k \<le> py_int b + py_int r"
  using py_int_mono [OF assms(1)] py_int_mono [OF assms(2)] by simp

lemma ellipse_top_le:
  assumes "0 \<le> a" and "0 \<le> b" and "0 \<le> r" and "a + real_of_int k + 2 \<le> b + r"
  shows "py_int a + k \<le> py_int b + py_int r"
proof -
  have "real_of_int (py_int a) \<le> a" using assms(1) by (simp add: py_int_def)
  moreover have "b < real_of_int (py_int b) + 1" using assms(2) by (simp add: py_int_def; linarith)
  moreover have "r < real_of_int (py_int r) + 1" using assms(3) by (simp add: py_int_def; linarith)
  ultimately have "real_of_int (py_int a + k) < real_of_int (py_int b + py_int r)"
    using assms(4) by simp
  then show ?thesis by linarith
qed

lemma chamber_boxes_ordered:
  assumes "0 \<le> sf" and "sf \<le> 1"
  shows "list_all box_ordered (chamber_draw_commands sf width height)"
proof -
  let ?h = "real height"
  have n: "0 \<le> py_int (75 * (1 - 0.18 * sf * 0.3))" "0 \<le> py_int (55 * (1 - 0.18 * sf))"
    "0 \<le> py_int (65 * (1 - 0.12 * sf * 0.3))" "0 \<le> py_int (50 * (1 - 0.12 * sf))"
    "0 \<le> py_int (70 * (1 + 0.08 * sf))" "0 \<le> py_int (55 * (1 + 0.08 * sf))"
    "0 \<le> py_int (60 * (1 + 0.06 * sf))" "0 \<le> py_int (50 * (1 + 0.06 * sf))"
    by (rule py_int_product_nonneg; use assms in simp)+
  have y: "py_int (?h * 0.12) + 0 \<le> py_int (?h * 0.35) + py_int (140 * (1 - 0.18 * sf * 0.2))"
    "py_int (?h * 0.12) + 25 \<le> py_int (?h * 0.35) + py_int (115 * (1 - 0.18 * sf * 0.8))"
    "py_int (?h * 0.12) + 15 \<le> py_int (?h * 0.32) + py_int (120 * (1 - 0.12 * sf * 0.2))"
    "py_int (?h * 0.12) + 30 \<le> py_int (?h * 0.32) + py_int (100 * (1 - 0.12 * sf * 0.7))"
    by (rule ellipse_top_le_const; use assms in simp)+
  from n y show ?thesis
    by (simp add: chamber_draw_commands_def chamber_sizes_4chamber_def Let_def)
qed

lemma heart_boxes_ordered:
  assumes "104 \<le> height" and "0 \<le> sf" and "sf \<le> 1"
  shows "list_all box_ordered
           (heart_draw_commands (CardiacAnatomy_init (int width) (int height)) sf width height)"
proof -
  let ?h = "real height" and ?w = "real width"
  from assms(1) have h: "104 \<le> ?h" by simp
  have n: "0 \<le> py_int (?w * 0.14 * (1 - 0.22 * sf * 0.15))"
    "0 \<le> py_int (?w * 0.10 * (1 - 0.22 * sf * 0.4))"
    "0 \<le> py_int (?w * 0.11 * (1 - 0.15 * sf * 0.15))"
    "0 \<le> py_int (?w * 0.08 * (1 - 0.15 * sf * 0.35))"
    "0 \<le> py_int (?w * 0.12 * (1 + 0.12 * sf))" "0 \<le> py_int (?h * 0.12 * (1 + 0.12 * sf))"
    "0 \<le> py_int (?w * 0.10 * (1 + 0.10 * sf))" "0 \<le> py_int (?h * 0.11 * (1 + 0.10 * sf))"
    "0 \<le> py_int (?w * 0.015)" "0 \<le> py_int (?w * 0.012)"
    by (rule py_int_product_nonneg; use assms in simp)+
  define q1 where "q1 = ?h * 0.32 * (1 - 0.22 * sf * 0.1)"
  define q2 where "q2 = ?h * 0.26 * (1 - 0.22 * sf * 0.35)"
  define q3 where "q3 = ?h * 0.28 * (1 - 0.15 * sf * 0.1)"
  define q4 where "q4 = ?h * 0.23 * (1 - 0.15 * sf * 0.3)"
  have r: "?h * 0.32 * 0.978 \<le> q1" "?h * 0.26 * 0.923 \<le> q2"
    "?h * 0.28 * 0.985 \<le> q3" "?h * 0.23 * 0.955 \<le> q4"
    unfolding q1_def q2_def q3_def q4_def by (rule mult_left_mono; use assms in simp)+
  have y1: "py_int (?h * 0.08) + 15 \<le> py_int (?h * 0.30) + py_int q1"
    by (rule ellipse_top_le; use h r(1) in simp)
  have y2: "py_int (?h * 0.08) + 35 \<le> py_int (?h * 0.30) + py_int q2"
    by (rule ellipse_top_le; use h r(2) in simp)
  have y3: "py_int (?h * 0.08) + 25 \<le> py_int (?h * 0.28) + py_int q3"
    by (rule ellipse_top_le; use h r(3) in simp)
  have y4: "py_int (?h * 0.08) + 40 \<le> py_int (?h * 0.28) + py_int q4"
    by (rule ellipse_top_le; use h r(4) in simp)
  note y = y1 [unfolded q1_def] y2 [unfolded q2_def] y3 [unfolded q3_def] y4 [unfolded q4_def]
  from n y show ?thesis
    by (simp add: heart_draw_commands_def get_lv_contour_def get_rv_contour_def
        get_la_contour_def get_ra_contour_def get_mitral_valve_def get_tricuspid_valve_def
        CardiacAnatomy_init_def Let_def)
qed

text \<open>
  The bound on the height is needed: on a \<open>64 \<times> 64\<close> frame the inner ellipse of the
  left ventricle has its top in row 40 and its bottom in row 34.
\<close>

lemma heart_boxes_inverted_64:
  "\<not> list_all box_ordered
       (heart_draw_commands (CardiacAnatomy_init 64 64) (systole_of_phase (phase_of 0)) 64 64)"
  by (simp add: heart_draw_commands_def get_lv_contour_def get_rv_contour_def
      get_la_contour_def get_ra_contour_def get_mitral_valve_def get_tricuspid_valve_def
      CardiacAnatomy_init_def Let_def systole_of_phase_def phase_of_def py_int_def)

lemma overlay_doppler_clipped_ok:
  assumes "nrows im = h" and "ncols im = w"
    and "nrows heart = h" and "ncols heart = w"
    and "nrows dop = h" and "ncols dop = w"
  shows "\<exists>rgb. overlay_doppler_clipped im heart dop = Inr rgb \<and> nrows rgb = h \<and> ncols rgb = w
           \<and> (\<forall>i j c. 0 \<le> px rgb i j c \<and> px rgb i j c \<le> 1)"
proof -
  let ?rgb = "gray_to_rgb im"
  let ?blood = "arr_map (\<lambda>v. v < 0.1) heart"
  have rs: "nrows ?rgb = h" "ncols ?rgb = w" using assms(1,2) by (simp_all add: gray_to_rgb_def arr_map_def)
  from arr_zip_ok [of dop ?blood "\<lambda>b d c. b \<and> d c > 0.05"] assms(3-6)
  obtain cond where 1: "arr_zip (\<lambda>b d c. b \<and> d c > 0.05) ?blood dop = Inr cond"
    and s1: "nrows cond = h" "ncols cond = w" by (auto simp: arr_map_def)
  from arr_zip_ok [of ?rgb dop "\<lambda>d p c. d c * 0.8 + p c * 0.2"] assms(5,6) rs
  obtain blend where 2: "arr_zip (\<lambda>d p c. d c * 0.8 + p c * 0.2) dop ?rgb = Inr blend"
    and s2: "nrows blend = h" "ncols blend = w" by auto
  from arr_zip_ok [of ?rgb blend Pair] rs s2
  obtain ab where 3: "arr_zip Pair blend ?rgb = Inr ab"
    and s3: "nrows ab = h" "ncols ab = w" by auto
  from arr_zip_ok [of ab cond "\<lambda>k ab c. if k c then fst ab c else snd ab c"] s1 s3
  obtain sel where 4: "arr_zip (\<lambda>k ab c. if k c then fst ab c else snd ab c) cond ab = Inr sel"
    and s4: "nrows sel = h" "ncols sel = w" by auto
  have w: "np_where cond blend ?rgb = Inr sel"
    unfolding np_where_def 3 bindE_Inr 4 ..
  have "overlay_doppler_clipped im heart dop = Inr (arr_map (\<lambda>p c. np_clip (p c) 0 1) sel)"
    unfolding overlay_doppler_clipped_def Let_def 1 2 w bindE_Inr ..
  then show ?thesis using s4 by (simp add: arr_map_def np_clip_unit)
qed

lemma quantize_frame_px:
  "px (quantize_frame img) i j c = astype_uint8 (intensity_at img i j c * 255)"
  by (cases img) (simp_all add: gray_to_rgb_def arr_map_def)

lemma compose_realistic_frame_returns:
  assumes "0 < width" and "0 < height" and "4 dvd width" and "4 dvd height"
    and "total_frames \<noteq> 0"
    and "seed_in_range (frame_seed speckle_seed frame)"
    and "seed_in_range (heart_speckle_seed (frame_seed speckle_seed frame))"
  shows "\<exists>img g'. compose_realistic_frame lib width height frame total_frames include_color
                     speckle_seed g = Inr (img, g')
           \<and> nrows (quantize_frame img) = height \<and> ncols (quantize_frame img) = width
           \<and> (\<forall>i j c. 0 \<le> intensity_at img i j c \<and> intensity_at img i j c \<le> 1)"
proof -
  let ?anatomy = "CardiacAnatomy_init (int width) (int height)"
  let ?cycle = "real_of_int frame / real_of_int total_frames"
  let ?sf = "systole_of_phase (phase_of ?cycle)"
  let ?sector = "create_sector_geometry lib width height realistic_frame_angle_deg"
  let ?seed = "frame_seed speckle_seed frame"
  note cy = cycle_of_nonzero [OF assms(5), of frame]
  from realistic_speckle_normalized [OF assms(1-4,6), of lib g]
  obtain speckle g1 where sp: "generate_realistic_speckle lib width height ?seed g = Inr (speckle, g1)"
    and sps: "nrows speckle = height" "ncols speckle = width" by blast
  let ?heart = "draw_heart_structure lib (arr_map (\<lambda>v. v * 0.15) speckle) ?anatomy ?sf"
  have hs: "nrows ?heart = height" "ncols ?heart = width"
    using sps by (simp_all add: arr_map_def)
  from realistic_speckle_normalized [OF assms(1-4,7), of lib g1]
  obtain hsp g2 where hp: "generate_realistic_speckle lib width height (heart_speckle_seed ?seed) g1
                             = Inr (hsp, g2)"
    and hps: "nrows hsp = height" "ncols hsp = width" by blast
  from compose_gray_ok [OF hs hps, of ?sector lib]
  obtain image5 where cg: "compose_gray lib ?sector ?heart hsp = Inr image5"
    and s5: "nrows image5 = height" "ncols image5 = width"
    and r5: "\<forall>i j. 0 \<le> px image5 i j \<and> px image5 i j \<le> 1" by auto
  show ?thesis
  proof (cases include_color)
    case True
    obtain doppler g3 where dp: "generate_color_doppler_flow lib width height ?anatomy ?sf ?cycle g2
                                   = Inr (doppler, g3)"
      and dps: "nrows doppler = height" "ncols doppler = width"
      using doppler_flow_result [of lib width height ?anatomy ?sf ?cycle g2] by simp
    from overlay_doppler_clipped_ok [OF s5 hs dps]
    obtain rgb where ov: "overlay_doppler_clipped image5 ?heart doppler = Inr rgb"
      and os: "nrows rgb = height" "ncols rgb = width"
      and oq: "\<forall>i j c. 0 \<le> px rgb i j c \<and> px rgb i j c \<le> 1" by blast
    have "compose_realistic_frame lib width height frame total_frames include_color
            speckle_seed g = Inr (Colour rgb, g3)"
      unfolding compose_realistic_frame_def Let_def cy bindE_Inr sp prod.case hp cg dp ov
      using True by simp
    with os oq show ?thesis by (simp add: arr_map_def)
  next
    case False
    have "compose_realistic_frame lib width height frame total_frames include_color
            speckle_seed g = Inr (Gray image5, g2)"
      unfolding compose_realistic_frame_def Let_def cy bindE_Inr sp prod.case hp cg
      using False by simp
    with s5 r5 show ?thesis by (simp add: gray_to_rgb_def arr_map_def)
  qed
qed

lemma compose_echo_frame_v2_returns:
  assumes "0 < width" and "0 < height" and "8 dvd width" and "8 dvd height"
    and "total_frames \<noteq> 0" and "draws_positive lib"
  shows "\<exists>img g'. compose_echo_frame_v2 lib width height frame total_frames g = Inr (img, g')
           \<and> nrows img = height \<and> ncols img = width
           \<and> (\<forall>i j. 0 \<le> px img i j \<and> px img i j \<le> 1)"
proof -
  let ?mask = "create_sector_mask lib width height echo_frame_angle_deg"
  let ?bg = "\<lparr> nrows = height, ncols = width, px = (\<lambda>i j. 1 * 0.02 :: real) \<rparr>"
  have ms: "nrows ?mask = height" "ncols ?mask = width"
    by (simp_all add: create_sector_mask_def Let_def np_gaussian_filter_def)
  have "(0::real) < 0.25" by simp
  from speckle_noise_scaled [OF assms(1-4,6) this, of g]
  obtain speckle g1 where sp: "generate_speckle_noise lib width height 0.25 g = Inr (speckle, g1)"
    and sps: "nrows speckle = height" "ncols speckle = width" by blast
  from generate_4chamber_frame_ok [OF assms(5), of lib width height frame]
  obtain heart where he: "generate_4chamber_frame lib width height frame total_frames = Inr heart"
    and hs: "nrows heart = height" "ncols heart = width" by blast
  from arr_zip_ok [of "arr_map (\<lambda>v. v * 0.3) speckle" ?bg "(+)"] sps
  obtain image0 where 0: "arr_zip (+) ?bg (arr_map (\<lambda>v. v * 0.3) speckle) = Inr image0"
    and s0: "nrows image0 = height" "ncols image0 = width" by (auto simp: arr_map_def)
  from arr_zip_ok [of "arr_map (\<lambda>v. v * 0.85) heart" image0 "(+)"] hs s0
  obtain image1 where 1: "arr_zip (+) image0 (arr_map (\<lambda>v. v * 0.85) heart) = Inr image1"
    and s1: "nrows image1 = height" "ncols image1 = width" by (auto simp: arr_map_def)
  from apply_ultrasound_artifacts_ok [of ?mask image1] ms s1
  obtain image2 where 2: "apply_ultrasound_artifacts image1 ?mask = Inr image2"
    and s2: "nrows image2 = height" "ncols image2 = width" by auto
  have "compose_echo_frame_v2 lib width height frame total_frames g
          = Inr (arr_map (\<lambda>v. np_clip v 0 1) image2, g1)"
    unfolding compose_echo_frame_v2_def Let_def sp bindE_Inr prod.case he 0 1 2 ..
  then show ?thesis using s2 by (simp add: arr_map_def np_clip_unit)
qed



section \<open>Reproducibility of a seeded frame\<close>

text \<open>
  Without a seed the speckle generator continues from the state of the global generator
  it finds: its result depends on that state.
\<close>

lemma unseeded_speckle_final_state:
  assumes "generate_realistic_speckle lib width height None g = Inr (out, g')"
  shows "g' = snd (rayleigh lib 0.4 (height div 4) (width div 4)
                (snd (rayleigh lib 0.5 (height div 2) (width div 2)
                   (snd (rayleigh lib 0.6 height width g)))))"
  using assms
  by (auto simp: generate_realistic_speckle_def Let_def split_beta bindE_Inr_iff
      np_random_rayleigh_def)

lemma unseeded_speckle_depends_on_state:
  "generate_realistic_speckle counter_lib 4 4 None 0
     \<noteq> generate_realistic_speckle counter_lib 4 4 None 5"
proof
  assume eq: "generate_realistic_speckle counter_lib 4 4 None 0
                = generate_realistic_speckle counter_lib 4 4 None 5"
  have s: "seed_in_range None" by (simp add: seed_in_range_def)
  from realistic_speckle_normalized [of 4 4 None counter_lib 0, OF _ _ _ _ s]
  obtain out g' where a: "generate_realistic_speckle counter_lib 4 4 None 0 = Inr (out, g')"
    by auto
  with eq have b: "generate_realistic_speckle counter_lib 4 4 None 5 = Inr (out, g')" by simp
  from unseeded_speckle_final_state [OF a] have "g' = 3" by (simp add: counter_lib_def)
  moreover from unseeded_speckle_final_state [OF b] have "g' = 8" by (simp add: counter_lib_def)
  ultimately show False by simp
qed

text \<open>
  Claim C10. For every width, height, frame, frame count and colour flag and every
  seed \<open>speckle_seed\<close> with \<open>speckle_seed + frame \<noteq> 0\<close>, the background speckle is seeded
  with \<open>speckle_seed + frame\<close>, the heart speckle with \<open>speckle_seed + frame + 1000\<close>, and
  the result of \<open>generate_realistic_frame\<close> (pixels, or the exception raised) does not
  depend on the state of the global random generator at the call: two calls with
  identical arguments return identical pixel arrays.
\<close>

theorem realistic_frame_reproducible:
  assumes "s + frame \<noteq> 0"
  shows "frame_seed (Some s) frame = Some (s + frame)
       \<and> heart_speckle_seed (frame_seed (Some s) frame) = Some (s + frame + 1000)
       \<and> generate_realistic_frame lib width height frame total_frames include_color (Some s) g0
         = generate_realistic_frame lib width height frame total_frames include_color (Some s) g1"
  using assms realistic_frame_ignores_state [of lib width height frame total_frames
      include_color s g0 g1]
  by (simp add: frame_seed_def heart_speckle_seed_def)

theorem realistic_frame_reproducible_witness:
  "(4242::int) + 7 \<noteq> 0
   \<and> heart_speckle_seed (frame_seed (Some 4242) 7) = Some 5249
   \<and> generate_realistic_frame counter_lib 640 480 7 90 True (Some 4242) 0
     = generate_realistic_frame counter_lib 640 480 7 90 True (Some 4242) 12345"
  using realistic_frame_reproducible [of 4242 7 counter_lib 640 480 90 True 0 12345]
  by (simp add: frame_seed_def heart_speckle_seed_def)

end
